theory Spec2Isabelle
  imports Main "HOL-Library.Sublist"
begin

section \<open>Python values, exceptions and the process state\<close>

text \<open>
  The two scripts \<^verbatim>\<open>chatgpt_api.py\<close> and \<^verbatim>\<open>gemini_api.py\<close> hand keyword arguments to a
  vendor SDK. The arguments are Python values: strings, integers, lists and dictionaries
  (a dictionary is an association list, in the order the source writes its keys).
\<close>

datatype py_value =
    PyNone
  | PyStr string
  | PyInt int
  | PyList "py_value list"
  | PyDict "(string \<times> py_value) list"

type_synonym kwargs = "(string \<times> py_value) list"

text \<open>
  An exception is its class and the text \<^verbatim>\<open>str(e)\<close> gives. The clause
  \<^verbatim>\<open>except Exception\<close> catches the classes that derive from \<^verbatim>\<open>Exception\<close>; of the
  built-in classes \<^verbatim>\<open>KeyboardInterrupt\<close>, \<^verbatim>\<open>SystemExit\<close> and \<^verbatim>\<open>GeneratorExit\<close> derive
  from \<^verbatim>\<open>BaseException\<close> only. \<open>OtherException\<close> names any further class below
  \<^verbatim>\<open>Exception\<close> (the errors of the vendor SDKs, of the network and of the file system).
\<close>

datatype exc_class =
    ValueError
  | IndexError
  | TypeError
  | OtherException string
  | KeyboardInterrupt
  | SystemExit
  | GeneratorExit

datatype py_exception = PyExc exc_class string

fun exc_str :: "py_exception \<Rightarrow> string" where
  "exc_str (PyExc c m) = m"

fun derives_from_Exception :: "exc_class \<Rightarrow> bool" where
  "derives_from_Exception KeyboardInterrupt = False"
| "derives_from_Exception SystemExit = False"
| "derives_from_Exception GeneratorExit = False"
| "derives_from_Exception c = True"

fun is_Exception :: "py_exception \<Rightarrow> bool" where
  "is_Exception (PyExc c m) = derives_from_Exception c"

text \<open>The objects the SDKs hand back. A chat completion holds its choices and the text
  \<^verbatim>\<open>str(completion)\<close>; the content of a message may be \<^verbatim>\<open>None\<close>. Reading the property
  \<^verbatim>\<open>response.text\<close> of a Gemini response may itself raise, so the field holds a result.\<close>

datatype openai_client = OpenAI_client kwargs

datatype generative_model = Model_handle string

record chat_message =
  content :: "string option"

record chat_choice =
  message :: chat_message

record completion =
  choices :: "chat_choice list"
  completion_str :: string

record gen_response =
  response_text :: "py_exception + string"
  response_str :: string

text \<open>The vendor SDKs are outside the repository: what their constructors and call
  primitives answer is a parameter of every definition below.\<close>

record sdk =
  OpenAI :: "kwargs \<Rightarrow> py_exception + openai_client"
  chat_completions_create :: "openai_client \<Rightarrow> kwargs \<Rightarrow> py_exception + completion"
  genai_configure :: "kwargs \<Rightarrow> py_exception option"
  GenerativeModel :: "string \<Rightarrow> py_exception + generative_model"
  generate_content :: "generative_model \<Rightarrow> string \<Rightarrow> kwargs \<Rightarrow> py_exception + gen_response"

text \<open>Every invocation of a provider call primitive is logged with its arguments.\<close>

datatype network_call =
    Chat_completions_create kwargs
  | Generate_content string kwargs

datatype open_mode = Mode_r | Mode_w

text \<open>
  The state of a run: the environment as \<^verbatim>\<open>os.getenv\<close> reads it (after
  \<^verbatim>\<open>load_dotenv()\<close>), the file system, the lines printed and the provider calls made.
  \<open>open_raises w path mode\<close> is the exception, if any, with which the operating system
  refuses to open \<open>path\<close> in that mode. \<open>locale_encode_raises w s\<close> is the exception, if
  any, with which the encoding of the locale refuses the text \<open>s\<close>
  (\<^verbatim>\<open>UnicodeEncodeError\<close>): a file opened with no \<^verbatim>\<open>encoding=\<close> is written in that encoding.
\<close>

record world =
  environ :: "string \<Rightarrow> string option"
  path_exists :: "string \<Rightarrow> bool"
  file_content :: "string \<Rightarrow> string"
  open_raises :: "string \<Rightarrow> open_mode \<Rightarrow> py_exception option"
  locale_encode_raises :: "string \<Rightarrow> py_exception option"
  stdout :: "string list"
  network :: "network_call list"

text \<open>A method runs on the pair of its \<^verbatim>\<open>self\<close> object and the world, and returns both
  with its result; \<open>Inl e\<close> is the exception \<open>e\<close> raised to the caller.\<close>

type_synonym 'o state = "'o \<times> world"

definition print :: "string \<Rightarrow> world \<Rightarrow> world" where
  "print line w = w\<lparr>stdout := stdout w @ [line]\<rparr>"

definition open_read :: "string \<Rightarrow> world \<Rightarrow> py_exception + string" where
  "open_read path w =
     (case open_raises w path Mode_r of
        Some e \<Rightarrow> Inl e
      | None \<Rightarrow> Inr (file_content w path))"

text \<open>\<^verbatim>\<open>open(path, 'w')\<close> creates the file or empties it; \<^verbatim>\<open>f.write(s)\<close> then appends.\<close>

definition open_write :: "string \<Rightarrow> world \<Rightarrow> py_exception option \<times> world" where
  "open_write path w =
     (case open_raises w path Mode_w of
        Some e \<Rightarrow> (Some e, w)
      | None \<Rightarrow>
          (None, w\<lparr>path_exists := (path_exists w)(path := True),
                    file_content := (file_content w)(path := [])\<rparr>))"

definition file_write :: "string \<Rightarrow> string \<Rightarrow> world \<Rightarrow> world" where
  "file_write path s w = w\<lparr>file_content := (file_content w)(path := file_content w path @ s)\<rparr>"

text \<open>\<^verbatim>\<open>f.write(s)\<close> on a file opened with the encoding of the locale: a text that encoding
  cannot hold raises, and nothing is written.\<close>

definition file_write_locale :: "string \<Rightarrow> string \<Rightarrow> world \<Rightarrow> py_exception option \<times> world" where
  "file_write_locale path s w =
     (case locale_encode_raises w s of
        Some e \<Rightarrow> (Some e, w)
      | None \<Rightarrow> (None, file_write path s w))"

text \<open>Python's \<^verbatim>\<open>needle in haystack\<close> on strings.\<close>

fun str_contains :: "string \<Rightarrow> string \<Rightarrow> bool" where
  "str_contains needle [] = (needle = [])"
| "str_contains needle (c # cs) = (prefix needle (c # cs) \<or> str_contains needle cs)"

definition backslash :: char where
  "backslash = CHR 0x5C"

definition quote :: char where
  "quote = CHR 0x27"

text \<open>The path both entry points read the problem statement from.\<close>

definition statement_path :: string where
  "statement_path =
     ''C:'' @ [backslash] @ ''Users'' @ [backslash] @ ''alexd'' @ [backslash] @ ''OneDrive''
     @ [backslash] @ ''Documents'' @ [backslash] @ ''GitHub'' @ [backslash]
     @ ''CompetitveProgrammingLLM'' @ [backslash] @ ''Permutation'' @ [backslash]
     @ ''Permutation_Zip'' @ [backslash] @ ''statement.txt''"

section \<open>The script \<^verbatim>\<open>chatgpt_api.py\<close>\<close>

record chatgpt_LLMInterface =
  prompt :: string

record ExampleLLM = chatgpt_LLMInterface +
  client :: openai_client

text \<open>\<^verbatim>\<open>LLMInterface.__init__\<close>: the triple-quoted literal starts with a line break and
  eight blanks and ends with a line break and eight blanks.\<close>

definition chatgpt_LLMInterface_init :: chatgpt_LLMInterface where
  "chatgpt_LLMInterface_init =
     \<lparr>prompt = ''\<newline>        You are a competitive programmer. You will be given a problem statement, please implement solution in C++. The execution time and memory limit are also stated in the statement so be aware of the complexity of the program. Please wrap the code in ```cpp and ``` so that it is properly formatted.\<newline>        ''\<rparr>"

text \<open>\<^verbatim>\<open>LLMInterface.generate_solution\<close>; the abstract method \<^verbatim>\<open>call_llm\<close> of the subclass
  is the first argument.\<close>

definition chatgpt_generate_solution ::
  "(string \<Rightarrow> 'z chatgpt_LLMInterface_scheme state
      \<Rightarrow> (py_exception + 'r \<times> 'm) \<times> 'z chatgpt_LLMInterface_scheme state)
   \<Rightarrow> string \<Rightarrow> 'z chatgpt_LLMInterface_scheme state
   \<Rightarrow> (py_exception + 'r \<times> 'm) \<times> 'z chatgpt_LLMInterface_scheme state" where
  "chatgpt_generate_solution call_llm problem_statement s =
     (let user_prompt = chatgpt_LLMInterface.prompt (fst s) @ problem_statement
      in case call_llm user_prompt s of
           (Inl e, s') \<Rightarrow> (Inl e, s')
         | (Inr (response, meta), s') \<Rightarrow> (Inr (response, meta), s'))"

text \<open>\<^verbatim>\<open>ExampleLLM.__init__\<close>: prints the key, builds the client, handles nothing.\<close>

definition ExampleLLM_init :: "sdk \<Rightarrow> world \<Rightarrow> (py_exception + ExampleLLM) \<times> world" where
  "ExampleLLM_init sdk w =
     (let base = chatgpt_LLMInterface_init;
          api_key = environ w ''OPENAI_API_KEY'';
          w1 = print (case api_key of None \<Rightarrow> ''None'' | Some k \<Rightarrow> k) w
      in case OpenAI sdk [(''api_key'', case api_key of None \<Rightarrow> PyNone | Some k \<Rightarrow> PyStr k)] of
           Inl e \<Rightarrow> (Inl e, w1)
         | Inr c \<Rightarrow> (Inr \<lparr>prompt = chatgpt_LLMInterface.prompt base, client = c\<rparr>, w1))"

text \<open>\<^verbatim>\<open>ExampleLLM.call_llm\<close>: one request with the keyword arguments of
  \<open>ExampleLLM_request\<close>, no handler; \<^verbatim>\<open>choices[0]\<close> of an empty list raises
  \<^verbatim>\<open>IndexError\<close>.\<close>

definition ExampleLLM_request :: "string \<Rightarrow> kwargs" where
  "ExampleLLM_request user_prompt =
     [(''model'', PyStr ''gpt-5''),
      (''messages'', PyList [PyDict [(''role'', PyStr ''user''), (''content'', PyStr user_prompt)]]),
      (''reasoning_effort'', PyStr ''high'')]"

fun ExampleLLM_call_llm ::
  "sdk \<Rightarrow> string \<Rightarrow> ExampleLLM state
   \<Rightarrow> (py_exception + string option \<times> string) \<times> ExampleLLM state" where
  "ExampleLLM_call_llm sdk user_prompt (self, w) =
     (let kw = ExampleLLM_request user_prompt;
          w1 = w\<lparr>network := network w @ [Chat_completions_create kw]\<rparr>
      in case chat_completions_create sdk (client self) kw of
           Inl e \<Rightarrow> (Inl e, (self, w1))
         | Inr completion \<Rightarrow>
             (case choices completion of
                [] \<Rightarrow> (Inl (PyExc IndexError ''list index out of range''), (self, w1))
              | c # cs \<Rightarrow> (Inr (content (message c), completion_str completion), (self, w1))))"

text \<open>The entry point of \<^verbatim>\<open>chatgpt_api.py\<close>. The result is the exception that ends the
  run, if any. The output file is opened with no \<^verbatim>\<open>encoding=\<close>, and is already emptied
  when the write raises: \<^verbatim>\<open>TypeError\<close> for \<^verbatim>\<open>None\<close>, or the error of the locale's
  encoding for a text it cannot hold.\<close>

definition chatgpt_main :: "sdk \<Rightarrow> world \<Rightarrow> py_exception option \<times> world" where
  "chatgpt_main sdk w =
     (case ExampleLLM_init sdk w of
        (Inl e, w1) \<Rightarrow> (Some e, w1)
      | (Inr llm, w1) \<Rightarrow>
          (case open_read statement_path w1 of
             Inl e \<Rightarrow> (Some e, w1)
           | Inr statement \<Rightarrow>
               (case chatgpt_generate_solution (ExampleLLM_call_llm sdk) statement (llm, w1) of
                  (Inl e, s2) \<Rightarrow> (Some e, snd s2)
                | (Inr (response, meta), s2) \<Rightarrow>
                    (case open_write ''permutation_gpt_solution.txt'' (snd s2) of
                       (Some e, w3) \<Rightarrow> (Some e, w3)
                     | (None, w3) \<Rightarrow>
                         (case response of
                            None \<Rightarrow>
                              (Some (PyExc TypeError ''write() argument must be str, not None''), w3)
                          | Some solution \<Rightarrow>
                              (case file_write_locale ''permutation_gpt_solution.txt'' solution w3 of
                                 (Some e, w4) \<Rightarrow> (Some e, w4)
                               | (None, w4) \<Rightarrow> (None, print meta w4)))))))"

section \<open>The script \<^verbatim>\<open>gemini_api.py\<close>\<close>

record gemini_LLMInterface =
  prompt :: string

record GeminiLLM = gemini_LLMInterface +
  model :: "generative_model option"

definition gemini_LLMInterface_init :: gemini_LLMInterface where
  "gemini_LLMInterface_init =
     \<lparr>prompt = ''\<newline>        You are a competitive programmer. You will be given a problem statement, please implement solution in C++. The execution time and memory limit are also stated in the statement so be aware of the complexity of the program. Please wrap the code in ```cpp and ``` so that it is properly formatted.\<newline>        ''\<rparr>"

definition gemini_generate_solution ::
  "(string \<Rightarrow> 'z gemini_LLMInterface_scheme state
      \<Rightarrow> (py_exception + 'r \<times> 'm) \<times> 'z gemini_LLMInterface_scheme state)
   \<Rightarrow> string \<Rightarrow> 'z gemini_LLMInterface_scheme state
   \<Rightarrow> (py_exception + 'r \<times> 'm) \<times> 'z gemini_LLMInterface_scheme state" where
  "gemini_generate_solution call_llm problem_statement s =
     (let user_prompt = gemini_LLMInterface.prompt (fst s) @ problem_statement
      in case call_llm user_prompt s of
           (Inl e, s') \<Rightarrow> (Inl e, s')
         | (Inr (response, meta), s') \<Rightarrow> (Inr (response, meta), s'))"

text \<open>The body of the \<^verbatim>\<open>try\<close> block of \<^verbatim>\<open>GeminiLLM.__init__\<close>: a key that is
  \<^verbatim>\<open>None\<close> or empty is falsy.\<close>

definition GeminiLLM_init_try :: "sdk \<Rightarrow> world \<Rightarrow> py_exception + generative_model" where
  "GeminiLLM_init_try sdk w =
     (case environ w ''GOOGLE_API_KEY'' of
        None \<Rightarrow> Inl (PyExc ValueError ''GOOGLE_API_KEY not found in environment variables.'')
      | Some api_key \<Rightarrow>
          if api_key = []
          then Inl (PyExc ValueError ''GOOGLE_API_KEY not found in environment variables.'')
          else (case genai_configure sdk [(''api_key'', PyStr api_key)] of
                  Some e \<Rightarrow> Inl e
                | None \<Rightarrow> GenerativeModel sdk ''gemini-2.5-pro''))"

text \<open>\<^verbatim>\<open>GeminiLLM.__init__\<close>: what \<^verbatim>\<open>except Exception\<close> catches leaves the adapter
  alive with no model.\<close>

definition GeminiLLM_init :: "sdk \<Rightarrow> world \<Rightarrow> (py_exception + GeminiLLM) \<times> world" where
  "GeminiLLM_init sdk w =
     (let base = gemini_LLMInterface_init
      in case GeminiLLM_init_try sdk w of
           Inr m \<Rightarrow> (Inr \<lparr>prompt = gemini_LLMInterface.prompt base, model = Some m\<rparr>, w)
         | Inl e \<Rightarrow>
             if is_Exception e
             then (Inr \<lparr>prompt = gemini_LLMInterface.prompt base, model = None\<rparr>,
                   print (''Error during Gemini initialization: '' @ exc_str e) w)
             else (Inl e, w))"

text \<open>The body of the \<^verbatim>\<open>try\<close> block of \<^verbatim>\<open>GeminiLLM.call_llm\<close>: the request with its
  options, then the read of \<^verbatim>\<open>response.text\<close>.\<close>

definition GeminiLLM_call_llm_try ::
  "sdk \<Rightarrow> generative_model \<Rightarrow> string \<Rightarrow> kwargs \<Rightarrow> py_exception + string \<times> gen_response option" where
  "GeminiLLM_call_llm_try sdk m user_prompt kw =
     (case generate_content sdk m user_prompt kw of
        Inl e \<Rightarrow> Inl e
      | Inr response \<Rightarrow>
          (case response_text response of
             Inl e \<Rightarrow> Inl e
           | Inr solution_text \<Rightarrow> Inr (solution_text, Some response)))"

text \<open>The keyword arguments of the one \<^verbatim>\<open>generate_content\<close> call: a timeout of 600
  seconds in \<^verbatim>\<open>request_options\<close>.\<close>

definition GeminiLLM_request :: kwargs where
  "GeminiLLM_request = [(''request_options'', PyDict [(''timeout'', PyInt 600)])]"

fun GeminiLLM_call_llm ::
  "sdk \<Rightarrow> string \<Rightarrow> GeminiLLM state
   \<Rightarrow> (py_exception + string \<times> gen_response option) \<times> GeminiLLM state" where
  "GeminiLLM_call_llm sdk user_prompt (self, w) =
     (case model self of
        None \<Rightarrow> (Inr (''Error: Model not initialized.'', None), (self, w))
      | Some m \<Rightarrow>
          (let kw = GeminiLLM_request;
               w1 = w\<lparr>network := network w @ [Generate_content user_prompt kw]\<rparr>
           in case GeminiLLM_call_llm_try sdk m user_prompt kw of
                Inr r \<Rightarrow> (Inr r, (self, w1))
              | Inl e \<Rightarrow>
                  if is_Exception e
                  then (Inr (''Error: '' @ exc_str e, None),
                        (self, print (''An error occurred while calling the Gemini API: ''
                                       @ exc_str e) w1))
                  else (Inl e, (self, w1))))"

text \<open>The entry point of \<^verbatim>\<open>gemini_api.py\<close>, in its three blocks: the placeholder file
  written when the statement is missing (outside every handler), the body of the
  \<^verbatim>\<open>try\<close> block, and the run as a whole with its \<^verbatim>\<open>except Exception\<close>.\<close>

definition gemini_main_placeholder :: "world \<Rightarrow> py_exception option \<times> world" where
  "gemini_main_placeholder w =
     (if \<not> path_exists w statement_path
      then (let w1 = print (''Error: The file '' @ [quote] @ statement_path @ [quote]
                            @ '' was not found.'') w;
                w2 = print ''Please create the file with a problem statement or update the path in the script.'' w1
            in case open_write statement_path w2 of
                 (Some e, w3) \<Rightarrow> (Some e, w3)
               | (None, w3) \<Rightarrow>
                   (None, print (''A placeholder file has been created at '' @ [quote]
                                 @ statement_path @ [quote] @ ''.'')
                            (file_write statement_path
                               ''This is a placeholder problem. Please replace it with a real one.''
                               w3)))
      else (None, w))"

definition gemini_main_try :: "sdk \<Rightarrow> GeminiLLM \<Rightarrow> world \<Rightarrow> py_exception option \<times> world" where
  "gemini_main_try sdk llm w =
     (case open_read statement_path w of
        Inl e \<Rightarrow> (Some e, w)
      | Inr statement \<Rightarrow>
          (let w1 = print ''Generating solution with Gemini...'' w
           in case gemini_generate_solution (GeminiLLM_call_llm sdk) statement (llm, w1) of
                (Inl e, s2) \<Rightarrow> (Some e, snd s2)
              | (Inr (response, meta), s2) \<Rightarrow>
                  if response \<noteq> [] \<and> \<not> str_contains ''Error:'' response
                  then (case open_write ''permutation_gemini_solution.txt'' (snd s2) of
                          (Some e, w3) \<Rightarrow> (Some e, w3)
                        | (None, w3) \<Rightarrow>
                            (None,
                             print (case meta of None \<Rightarrow> ''None'' | Some r \<Rightarrow> response_str r)
                               (print ''\<newline>--- Metadata ---''
                                  (print ''Solution successfully saved to permutation_gemini_solution.txt''
                                     (file_write ''permutation_gemini_solution.txt'' response w3)))))
                  else (None,
                        print (''Response from API: '' @ response)
                          (print ''\<newline>Failed to generate a valid solution.'' (snd s2)))))"

definition gemini_main :: "sdk \<Rightarrow> world \<Rightarrow> py_exception option \<times> world" where
  "gemini_main sdk w =
     (case GeminiLLM_init sdk w of
        (Inl e, w1) \<Rightarrow> (Some e, w1)
      | (Inr llm, w1) \<Rightarrow>
          (case gemini_main_placeholder w1 of
             (Some e, w2) \<Rightarrow> (Some e, w2)
           | (None, w2) \<Rightarrow>
               (case gemini_main_try sdk llm w2 of
                  (None, w3) \<Rightarrow> (None, w3)
                | (Some e, w3) \<Rightarrow>
                    if is_Exception e
                    then (None, print (''An unexpected error occurred: '' @ exc_str e) w3)
                    else (Some e, w3))))"

section \<open>Sequences of invocations on one adapter\<close>

text \<open>A caller may invoke the two methods of an adapter any number of times, in any order,
  and may go on after an exception: each invocation runs on the adapter and world the one
  before left behind.\<close>

datatype invocation = Generate_solution string | Call_llm string

fun ExampleLLM_invoke :: "sdk \<Rightarrow> invocation \<Rightarrow> ExampleLLM state \<Rightarrow> ExampleLLM state" where
  "ExampleLLM_invoke sdk (Generate_solution problem_statement) s =
     snd (chatgpt_generate_solution (ExampleLLM_call_llm sdk) problem_statement s)"
| "ExampleLLM_invoke sdk (Call_llm user_prompt) s = snd (ExampleLLM_call_llm sdk user_prompt s)"

fun ExampleLLM_run :: "sdk \<Rightarrow> invocation list \<Rightarrow> ExampleLLM state \<Rightarrow> ExampleLLM state" where
  "ExampleLLM_run sdk [] s = s"
| "ExampleLLM_run sdk (i # rest) s = ExampleLLM_run sdk rest (ExampleLLM_invoke sdk i s)"

fun GeminiLLM_invoke :: "sdk \<Rightarrow> invocation \<Rightarrow> GeminiLLM state \<Rightarrow> GeminiLLM state" where
  "GeminiLLM_invoke sdk (Generate_solution problem_statement) s =
     snd (gemini_generate_solution (GeminiLLM_call_llm sdk) problem_statement s)"
| "GeminiLLM_invoke sdk (Call_llm user_prompt) s = snd (GeminiLLM_call_llm sdk user_prompt s)"

fun GeminiLLM_run :: "sdk \<Rightarrow> invocation list \<Rightarrow> GeminiLLM state \<Rightarrow> GeminiLLM state" where
  "GeminiLLM_run sdk [] s = s"
| "GeminiLLM_run sdk (i # rest) s = GeminiLLM_run sdk rest (GeminiLLM_invoke sdk i s)"

text \<open>What a logged request says about its timeout: the \<^verbatim>\<open>timeout\<close> keyword of a chat
  request, the \<^verbatim>\<open>timeout\<close> entry of the \<^verbatim>\<open>request_options\<close> of a content request.\<close>

fun request_timeout :: "network_call \<Rightarrow> py_value option" where
  "request_timeout (Chat_completions_create kw) = map_of kw ''timeout''"
| "request_timeout (Generate_content user_prompt kw) =
     (case map_of kw ''request_options'' of
        Some (PyDict options) \<Rightarrow> map_of options ''timeout''
      | _ \<Rightarrow> None)"

text \<open>The text a logged request carries to the provider.\<close>

fun request_prompt :: "network_call \<Rightarrow> py_value option" where
  "request_prompt (Chat_completions_create kw) =
     (case map_of kw ''messages'' of
        Some (PyList [PyDict msg]) \<Rightarrow> map_of msg ''content''
      | _ \<Rightarrow> None)"
| "request_prompt (Generate_content user_prompt kw) = Some (PyStr user_prompt)"

text \<open>The provider calls a step added to the log.\<close>

definition calls_made :: "world \<Rightarrow> world \<Rightarrow> network_call list" where
  "calls_made w w' = drop (length (network w)) (network w')"

section \<open>Sample SDK answers and worlds\<close>

text \<open>Concrete inputs on which the theorems below are instantiated: an SDK that answers,
  one whose provider calls fail with a connection error, one whose content request is
  interrupted from the keyboard, one whose genuine solution text mentions an error message;
  a world with both credentials and the statement file, and one with no credential.\<close>

definition sample_response :: gen_response where
  "sample_response =
     \<lparr>response_text = Inr ''int main() { return 1; }'', response_str = ''response: ok''\<rparr>"

definition sample_completion :: completion where
  "sample_completion =
     \<lparr>choices = [\<lparr>message = \<lparr>content = Some ''int main() { return 1; }''\<rparr>\<rparr>],
      completion_str = ''ChatCompletion(id=1)''\<rparr>"

definition sample_sdk :: sdk where
  "sample_sdk =
     \<lparr>OpenAI = (\<lambda>kw. Inr (OpenAI_client kw)),
      chat_completions_create = (\<lambda>c kw. Inr sample_completion),
      genai_configure = (\<lambda>kw. None),
      GenerativeModel = (\<lambda>name. Inr (Model_handle name)),
      generate_content = (\<lambda>m p kw. Inr sample_response)\<rparr>"

definition connection_error :: py_exception where
  "connection_error = PyExc (OtherException ''ConnectionError'') ''Connection error.''"

definition offline_sdk :: sdk where
  "offline_sdk =
     sample_sdk\<lparr>chat_completions_create := (\<lambda>c kw. Inl connection_error),
                generate_content := (\<lambda>m p kw. Inl connection_error)\<rparr>"

definition interrupted_sdk :: sdk where
  "interrupted_sdk = sample_sdk\<lparr>generate_content := (\<lambda>m p kw. Inl (PyExc KeyboardInterrupt []))\<rparr>"

definition error_handling_response :: gen_response where
  "error_handling_response =
     \<lparr>response_text = Inr ''int main() { std::cerr << \"Error: bad input\"; }'',
      response_str = ''response: ok''\<rparr>"

definition error_handling_sdk :: sdk where
  "error_handling_sdk = sample_sdk\<lparr>generate_content := (\<lambda>m p kw. Inr error_handling_response)\<rparr>"

text \<open>An SDK that answers a content request only when it carries the timeout of 600 in its
  request options, and a chat request only when it carries no timeout.\<close>

definition timeout_checking_sdk :: sdk where
  "timeout_checking_sdk =
     sample_sdk\<lparr>chat_completions_create :=
                  (\<lambda>c kw. if map_of kw ''timeout'' = None then Inr sample_completion
                           else Inl connection_error),
                generate_content :=
                  (\<lambda>m p kw. if kw = [(''request_options'', PyDict [(''timeout'', PyInt 600)])]
                             then Inr sample_response else Inl connection_error)\<rparr>"

definition sample_world :: world where
  "sample_world =
     \<lparr>environ = (\<lambda>k. if k = ''OPENAI_API_KEY'' then Some ''sk-test''
                      else if k = ''GOOGLE_API_KEY'' then Some ''g-test'' else None),
      path_exists = (\<lambda>p. p = statement_path),
      file_content = (\<lambda>p. if p = statement_path then ''Statement: return 1'' else []),
      open_raises = (\<lambda>p m. None),
      locale_encode_raises = (\<lambda>s. None),
      stdout = [],
      network = []\<rparr>"

definition no_key_world :: world where
  "no_key_world = sample_world\<lparr>environ := (\<lambda>k. None)\<rparr>"

definition sample_ExampleLLM :: ExampleLLM where
  "sample_ExampleLLM =
     \<lparr>chatgpt_LLMInterface.prompt = chatgpt_LLMInterface.prompt chatgpt_LLMInterface_init,
      client = OpenAI_client [(''api_key'', PyStr ''sk-test'')]\<rparr>"

definition sample_GeminiLLM :: GeminiLLM where
  "sample_GeminiLLM =
     \<lparr>prompt = gemini_LLMInterface.prompt gemini_LLMInterface_init,
      model = Some (Model_handle ''gemini-2.5-pro'')\<rparr>"

definition degraded_GeminiLLM :: GeminiLLM where
  "degraded_GeminiLLM =
     \<lparr>prompt = gemini_LLMInterface.prompt gemini_LLMInterface_init, model = None\<rparr>"

section \<open>Facts shared by the theorems\<close>

lemma chatgpt_generate_solution_eq:
  "chatgpt_generate_solution call_llm S s = call_llm (chatgpt_LLMInterface.prompt (fst s) @ S) s"
  by (simp add: chatgpt_generate_solution_def Let_def split: prod.splits sum.splits)

lemma gemini_generate_solution_eq:
  "gemini_generate_solution call_llm S s = call_llm (gemini_LLMInterface.prompt (fst s) @ S) s"
  by (simp add: gemini_generate_solution_def Let_def split: prod.splits sum.splits)

lemma ExampleLLM_init_prompt:
  "ExampleLLM_init sdk w0 = (Inr a, w1) \<Longrightarrow>
   chatgpt_LLMInterface.prompt a = chatgpt_LLMInterface.prompt chatgpt_LLMInterface_init"
  by (auto simp: ExampleLLM_init_def Let_def split: sum.splits)

lemma GeminiLLM_init_prompt:
  "GeminiLLM_init sdk w0 = (Inr g, w1) \<Longrightarrow>
   gemini_LLMInterface.prompt g = gemini_LLMInterface.prompt gemini_LLMInterface_init"
  by (auto simp: GeminiLLM_init_def Let_def split: sum.splits if_splits)

lemma sample_ExampleLLM_init:
  "ExampleLLM_init sample_sdk sample_world = (Inr sample_ExampleLLM, print ''sk-test'' sample_world)"
  by (simp add: ExampleLLM_init_def sample_sdk_def sample_world_def sample_ExampleLLM_def Let_def)

lemma sample_GeminiLLM_init:
  "GeminiLLM_init sample_sdk sample_world = (Inr sample_GeminiLLM, sample_world)"
  by (simp add: GeminiLLM_init_def GeminiLLM_init_try_def sample_sdk_def sample_world_def
      sample_GeminiLLM_def Let_def)

text \<open>\<open>str_contains\<close> is the substring test: the needle stands somewhere in the haystack.\<close>

lemma str_contains_iff: "str_contains needle hay \<longleftrightarrow> (\<exists>ps ss. hay = ps @ needle @ ss)"
proof (induction hay)
  case Nil
  then show ?case by auto
next
  case (Cons c cs)
  show ?case
  proof
    assume "str_contains needle (c # cs)"
    then consider "prefix needle (c # cs)" | "str_contains needle cs" by auto
    then show "\<exists>ps ss. c # cs = ps @ needle @ ss"
    proof cases
      case 1
      then obtain ss where "c # cs = needle @ ss" by (auto simp: prefix_def)
      then have "c # cs = [] @ needle @ ss" by simp
      then show ?thesis by blast
    next
      case 2
      with Cons.IH obtain ps ss where "cs = ps @ needle @ ss" by blast
      then have "c # cs = (c # ps) @ needle @ ss" by simp
      then show ?thesis by blast
    qed
  next
    assume "\<exists>ps ss. c # cs = ps @ needle @ ss"
    then obtain ps ss where eq: "c # cs = ps @ needle @ ss" by blast
    show "str_contains needle (c # cs)"
    proof (cases ps)
      case Nil
      with eq have "prefix needle (c # cs)" by (simp add: prefix_def)
      then show ?thesis by simp
    next
      case (Cons p ps')
      with eq have "cs = ps' @ needle @ ss" by simp
      with Cons.IH have "str_contains needle cs" by blast
      then show ?thesis by simp
    qed
  qed
qed

lemma GeminiLLM_init_absent:
  "environ w0 ''GOOGLE_API_KEY'' = None \<Longrightarrow>
   GeminiLLM_init sdk w0 =
     (Inr \<lparr>prompt = gemini_LLMInterface.prompt gemini_LLMInterface_init, model = None\<rparr>,
      print (''Error during Gemini initialization: ''
             @ ''GOOGLE_API_KEY not found in environment variables.'') w0)"
  by (simp add: GeminiLLM_init_def GeminiLLM_init_try_def Let_def)

text \<open>Neither \<^verbatim>\<open>call_llm\<close> touches its adapter; each appends its request to the log.\<close>

lemma ExampleLLM_call_llm_self: "fst (snd (ExampleLLM_call_llm sdk p (a, w))) = a"
  by (simp add: Let_def split: sum.splits list.splits)

lemma GeminiLLM_call_llm_self: "fst (snd (GeminiLLM_call_llm sdk p (g, w))) = g"
  by (simp add: Let_def split: sum.splits option.splits)

lemma ExampleLLM_call_llm_network:
  "network (snd (snd (ExampleLLM_call_llm sdk p (a, w)))) =
   network w @ [Chat_completions_create (ExampleLLM_request p)]"
  by (simp add: Let_def split: sum.splits list.splits)

lemma GeminiLLM_call_llm_network:
  "network (snd (snd (GeminiLLM_call_llm sdk p (g, w)))) =
   network w @ (case model g of None \<Rightarrow> [] | Some m \<Rightarrow> [Generate_content p GeminiLLM_request])"
  by (simp add: Let_def print_def split: sum.splits option.splits)

lemma ExampleLLM_calls_made:
  "calls_made w (snd (snd (ExampleLLM_call_llm sdk p (a, w)))) =
   [Chat_completions_create (ExampleLLM_request p)]"
  unfolding calls_made_def ExampleLLM_call_llm_network by simp

lemma GeminiLLM_calls_made:
  "calls_made w (snd (snd (GeminiLLM_call_llm sdk p (g, w)))) =
   (case model g of None \<Rightarrow> [] | Some m \<Rightarrow> [Generate_content p GeminiLLM_request])"
  unfolding calls_made_def GeminiLLM_call_llm_network by simp

text \<open>Printing, file operations and construction leave the log of provider calls alone.\<close>

lemma network_print [simp]: "network (print line w) = network w"
  by (simp add: print_def)

lemma network_file_write [simp]: "network (file_write path s w) = network w"
  by (simp add: file_write_def)

lemma network_open_write [simp]: "network (snd (open_write path w)) = network w"
  by (simp add: open_write_def split: option.splits)

lemma network_ExampleLLM_init [simp]: "network (snd (ExampleLLM_init sdk w)) = network w"
  by (simp add: ExampleLLM_init_def Let_def split: sum.splits)

lemma network_GeminiLLM_init [simp]: "network (snd (GeminiLLM_init sdk w)) = network w"
  by (simp add: GeminiLLM_init_def Let_def split: sum.splits)

lemma network_gemini_main_placeholder [simp]:
  "network (snd (gemini_main_placeholder w)) = network w"
proof (cases "open_write statement_path
    (print ''Please create the file with a problem statement or update the path in the script.''
       (print (''Error: The file '' @ [quote] @ statement_path @ [quote] @ '' was not found.'') w))")
  case (Pair r w3)
  then have "network w3 = network w"
    using network_open_write [of statement_path] by (metis network_print snd_conv)
  with Pair show ?thesis
    by (simp add: gemini_main_placeholder_def Let_def split: option.splits)
qed

text \<open>The outcome of either \<^verbatim>\<open>call_llm\<close> is decided by what the provider call primitive
  answers on the request the method hands it.\<close>

lemma ExampleLLM_call_llm_result:
  "fst (ExampleLLM_call_llm sdk p (a, w)) =
     (case chat_completions_create sdk (client a) (ExampleLLM_request p) of
        Inl e \<Rightarrow> Inl e
      | Inr c \<Rightarrow>
          (case choices c of
             [] \<Rightarrow> Inl (PyExc IndexError ''list index out of range'')
           | ch # cs \<Rightarrow> Inr (content (message ch), completion_str c)))"
  by (simp add: Let_def split: sum.splits list.splits)

lemma GeminiLLM_call_llm_result:
  "model g = Some m \<Longrightarrow>
   fst (GeminiLLM_call_llm sdk p (g, w)) =
     (case generate_content sdk m p GeminiLLM_request of
        Inl e \<Rightarrow> if is_Exception e then Inr (''Error: '' @ exc_str e, None) else Inl e
      | Inr r \<Rightarrow>
          (case response_text r of
             Inl e \<Rightarrow> if is_Exception e then Inr (''Error: '' @ exc_str e, None) else Inl e
           | Inr t \<Rightarrow> Inr (t, Some r)))"
  by (simp add: Let_def GeminiLLM_call_llm_try_def split: sum.splits)

lemma ExampleLLM_init_client:
  "ExampleLLM_init sdk w0 = (Inr a, w1) \<Longrightarrow> \<exists>key. OpenAI sdk [(''api_key'', key)] = Inr (client a)"
  by (auto simp: ExampleLLM_init_def Let_def split: sum.splits)

text \<open>The provider calls of a run of either entry point: the one request of
  \<^verbatim>\<open>generate_solution\<close> when the run gets that far with an adapter that can call, and none
  otherwise.\<close>

lemma network_file_write_locale [simp]:
  "network (snd (file_write_locale path s w)) = network w"
  by (simp add: file_write_locale_def split: option.splits)

lemma calls_made_append: "network w' = network w @ cs \<Longrightarrow> calls_made w w' = cs"
  by (simp add: calls_made_def)

lemma chatgpt_main_network:
  "network (snd (chatgpt_main sdk w)) =
   network w @
     (case ExampleLLM_init sdk w of
        (Inl e, w1) \<Rightarrow> []
      | (Inr llm, w1) \<Rightarrow>
          (case open_read statement_path w1 of
             Inl e \<Rightarrow> []
           | Inr statement \<Rightarrow>
               [Chat_completions_create
                  (ExampleLLM_request (chatgpt_LLMInterface.prompt llm @ statement))]))"
proof (cases "ExampleLLM_init sdk w")
  case (Pair r w1)
  then have n1: "network w1 = network w"
    using network_ExampleLLM_init [of sdk w] by simp
  show ?thesis
  proof (cases r)
    case (Inl e)
    with Pair n1 show ?thesis by (simp add: chatgpt_main_def)
  next
    case (Inr llm)
    show ?thesis
    proof (cases "open_read statement_path w1")
      case (Inl e)
      with Pair Inr n1 show ?thesis by (simp add: chatgpt_main_def)
    next
      case st: (Inr statement)
      let ?p = "chatgpt_LLMInterface.prompt llm @ statement"
      obtain res s2 where call: "ExampleLLM_call_llm sdk ?p (llm, w1) = (res, s2)"
        by (cases "ExampleLLM_call_llm sdk ?p (llm, w1)")
      then have n2: "network (snd s2) = network w @ [Chat_completions_create (ExampleLLM_request ?p)]"
        using ExampleLLM_call_llm_network [of sdk ?p llm w1] n1 by simp
      obtain r3 w3 where ow: "open_write ''permutation_gpt_solution.txt'' (snd s2) = (r3, w3)"
        by (cases "open_write ''permutation_gpt_solution.txt'' (snd s2)")
      then have n3: "network w3 = network (snd s2)"
        using network_open_write [of "''permutation_gpt_solution.txt''" "snd s2"] by simp
      have n4: "network (snd (file_write_locale ''permutation_gpt_solution.txt'' solution w3))
                  = network w3" for solution
        by simp
      have tail: "network (snd (case res of
                    Inl e \<Rightarrow> (Some e, snd s2)
                  | Inr (response, meta) \<Rightarrow>
                      (case open_write ''permutation_gpt_solution.txt'' (snd s2) of
                         (Some e, w3) \<Rightarrow> (Some e, w3)
                       | (None, w3) \<Rightarrow>
                           (case response of
                              None \<Rightarrow>
                                (Some (PyExc TypeError ''write() argument must be str, not None''), w3)
                            | Some solution \<Rightarrow>
                                (case file_write_locale ''permutation_gpt_solution.txt'' solution w3 of
                                   (Some e, w4) \<Rightarrow> (Some e, w4)
                                 | (None, w4) \<Rightarrow> (None, print meta w4))))))
                  = network (snd s2)"
      proof (cases res)
        case (Inl e)
        then show ?thesis by simp
      next
        case (Inr rm)
        obtain response meta where rm: "rm = (response, meta)" by (cases rm)
        show ?thesis
        proof (cases r3)
          case (Some e)
          with Inr rm ow n3 show ?thesis by simp
        next
          case None
          show ?thesis
          proof (cases response)
            case None
            with Inr rm ow n3 \<open>r3 = None\<close> show ?thesis by simp
          next
            case (Some solution)
            obtain r4 w4 where fw:
              "file_write_locale ''permutation_gpt_solution.txt'' solution w3 = (r4, w4)"
              by (cases "file_write_locale ''permutation_gpt_solution.txt'' solution w3")
            with n4 [of solution] have "network w4 = network w3" by simp
            with Inr rm ow n3 \<open>r3 = None\<close> Some fw show ?thesis
              by (simp split: option.splits)
          qed
        qed
      qed
      from Pair Inr st call n2 tail show ?thesis
        by (simp add: chatgpt_main_def chatgpt_generate_solution_eq split: prod.splits sum.splits)
    qed
  qed
qed

lemma gemini_main_try_network:
  "network (snd (gemini_main_try sdk llm w)) =
   network w @
     (case open_read statement_path w of
        Inl e \<Rightarrow> []
      | Inr statement \<Rightarrow>
          (case model llm of
             None \<Rightarrow> []
           | Some m \<Rightarrow>
               [Generate_content (gemini_LLMInterface.prompt llm @ statement) GeminiLLM_request]))"
proof (cases "open_read statement_path w")
  case (Inl e)
  then show ?thesis by (simp add: gemini_main_try_def)
next
  case st: (Inr statement)
  let ?w1 = "print ''Generating solution with Gemini...'' w"
  let ?p = "gemini_LLMInterface.prompt llm @ statement"
  obtain res s2 where call: "GeminiLLM_call_llm sdk ?p (llm, ?w1) = (res, s2)"
    by (cases "GeminiLLM_call_llm sdk ?p (llm, ?w1)")
  then have n2: "network (snd s2) =
      network w @ (case model llm of None \<Rightarrow> [] | Some m \<Rightarrow> [Generate_content ?p GeminiLLM_request])"
    using GeminiLLM_call_llm_network [of sdk ?p llm ?w1] by simp
  obtain r3 w3 where ow: "open_write ''permutation_gemini_solution.txt'' (snd s2) = (r3, w3)"
    by (cases "open_write ''permutation_gemini_solution.txt'' (snd s2)")
  then have n3: "network w3 = network (snd s2)"
    using network_open_write [of "''permutation_gemini_solution.txt''" "snd s2"] by simp
  from st call ow n2 n3 show ?thesis
    by (simp add: gemini_main_try_def gemini_generate_solution_eq Let_def
        split: sum.splits option.splits prod.splits)
qed

lemma gemini_main_network:
  "network (snd (gemini_main sdk w)) =
   network w @
     (case GeminiLLM_init sdk w of
        (Inl e, w1) \<Rightarrow> []
      | (Inr llm, w1) \<Rightarrow>
          (case gemini_main_placeholder w1 of
             (Some e, w2) \<Rightarrow> []
           | (None, w2) \<Rightarrow>
               (case open_read statement_path w2 of
                  Inl e \<Rightarrow> []
                | Inr statement \<Rightarrow>
                    (case model llm of
                       None \<Rightarrow> []
                     | Some m \<Rightarrow>
                         [Generate_content (gemini_LLMInterface.prompt llm @ statement)
                            GeminiLLM_request]))))"
proof (cases "GeminiLLM_init sdk w")
  case (Pair r w1)
  then have n1: "network w1 = network w"
    using network_GeminiLLM_init [of sdk w] by simp
  show ?thesis
  proof (cases r)
    case (Inl e)
    with Pair n1 show ?thesis by (simp add: gemini_main_def)
  next
    case (Inr llm)
    obtain r2 w2 where ph: "gemini_main_placeholder w1 = (r2, w2)"
      by (cases "gemini_main_placeholder w1")
    then have n2: "network w2 = network w"
      using network_gemini_main_placeholder [of w1] n1 by simp
    show ?thesis
    proof (cases r2)
      case (Some e)
      with Pair Inr ph n2 show ?thesis by (simp add: gemini_main_def)
    next
      case None
      obtain r3 w3 where tr: "gemini_main_try sdk llm w2 = (r3, w3)"
        by (cases "gemini_main_try sdk llm w2")
      then have n3: "network w3 =
          network w @
            (case open_read statement_path w2 of
               Inl e \<Rightarrow> []
             | Inr statement \<Rightarrow>
                 (case model llm of
                    None \<Rightarrow> []
                  | Some m \<Rightarrow>
                      [Generate_content (gemini_LLMInterface.prompt llm @ statement)
                         GeminiLLM_request]))"
        using gemini_main_try_network [of sdk llm w2] n2 by simp
      from Pair Inr ph None tr n3 show ?thesis
        by (simp add: gemini_main_def split: option.splits)
    qed
  qed
qed

lemma chatgpt_main_calls:
  "calls_made w (snd (chatgpt_main sdk w)) =
     (case ExampleLLM_init sdk w of
        (Inl e, w1) \<Rightarrow> []
      | (Inr llm, w1) \<Rightarrow>
          (case open_read statement_path w1 of
             Inl e \<Rightarrow> []
           | Inr statement \<Rightarrow>
               [Chat_completions_create
                  (ExampleLLM_request (chatgpt_LLMInterface.prompt llm @ statement))]))"
  by (rule calls_made_append) (rule chatgpt_main_network)

lemma gemini_main_calls:
  "calls_made w (snd (gemini_main sdk w)) =
     (case GeminiLLM_init sdk w of
        (Inl e, w1) \<Rightarrow> []
      | (Inr llm, w1) \<Rightarrow>
          (case gemini_main_placeholder w1 of
             (Some e, w2) \<Rightarrow> []
           | (None, w2) \<Rightarrow>
               (case open_read statement_path w2 of
                  Inl e \<Rightarrow> []
                | Inr statement \<Rightarrow>
                    (case model llm of
                       None \<Rightarrow> []
                     | Some m \<Rightarrow>
                         [Generate_content (gemini_LLMInterface.prompt llm @ statement)
                            GeminiLLM_request]))))"
  by (rule calls_made_append) (rule gemini_main_network)

lemma timeout_checking_ExampleLLM_init:
  "ExampleLLM_init timeout_checking_sdk sample_world =
     (Inr sample_ExampleLLM, print ''sk-test'' sample_world)"
  by (simp add: ExampleLLM_init_def timeout_checking_sdk_def sample_sdk_def sample_world_def
      sample_ExampleLLM_def Let_def)

lemma offline_ExampleLLM_init:
  "ExampleLLM_init offline_sdk sample_world = (Inr sample_ExampleLLM, print ''sk-test'' sample_world)"
  by (simp add: ExampleLLM_init_def offline_sdk_def sample_sdk_def sample_world_def
      sample_ExampleLLM_def Let_def)

lemma offline_GeminiLLM_init:
  "GeminiLLM_init offline_sdk sample_world = (Inr sample_GeminiLLM, sample_world)"
  by (simp add: GeminiLLM_init_def GeminiLLM_init_try_def offline_sdk_def sample_sdk_def
      sample_world_def sample_GeminiLLM_def Let_def)

lemma print_open_read: "open_read path (print line w) = open_read path w"
  by (simp add: open_read_def print_def split: option.splits)

lemma ExampleLLM_request_prompt:
  "request_prompt (Chat_completions_create (ExampleLLM_request p)) = Some (PyStr p)"
  by (simp add: ExampleLLM_request_def)

text \<open>No invocation, and so no sequence of invocations, changes the adapter it runs on.\<close>

lemma ExampleLLM_invoke_self: "fst (ExampleLLM_invoke sdk i (a, w)) = a"
proof (cases i)
  case (Generate_solution S)
  then show ?thesis
    unfolding Generate_solution ExampleLLM_invoke.simps chatgpt_generate_solution_eq
    by (simp only: fst_conv ExampleLLM_call_llm_self)
next
  case (Call_llm p)
  then show ?thesis
    unfolding Call_llm ExampleLLM_invoke.simps by (simp only: ExampleLLM_call_llm_self)
qed

lemma GeminiLLM_invoke_self: "fst (GeminiLLM_invoke sdk i (g, w)) = g"
proof (cases i)
  case (Generate_solution S)
  then show ?thesis
    unfolding Generate_solution GeminiLLM_invoke.simps gemini_generate_solution_eq
    by (simp only: fst_conv GeminiLLM_call_llm_self)
next
  case (Call_llm p)
  then show ?thesis
    unfolding Call_llm GeminiLLM_invoke.simps by (simp only: GeminiLLM_call_llm_self)
qed

lemma ExampleLLM_run_self: "fst (ExampleLLM_run sdk invs (a, w)) = a"
proof (induction invs arbitrary: w)
  case Nil
  show ?case by simp
next
  case (Cons i rest)
  obtain a' w' where step: "ExampleLLM_invoke sdk i (a, w) = (a', w')"
    by (cases "ExampleLLM_invoke sdk i (a, w)")
  with ExampleLLM_invoke_self [of sdk i a w] have "a' = a" by simp
  with step Cons.IH [of w'] show ?case by simp
qed

lemma GeminiLLM_run_self: "fst (GeminiLLM_run sdk invs (g, w)) = g"
proof (induction invs arbitrary: w)
  case Nil
  show ?case by simp
next
  case (Cons i rest)
  obtain g' w' where step: "GeminiLLM_invoke sdk i (g, w) = (g', w')"
    by (cases "GeminiLLM_invoke sdk i (g, w)")
  with GeminiLLM_invoke_self [of sdk i g w] have "g' = g" by simp
  with step Cons.IH [of w'] show ?case by simp
qed

text \<open>Printing, construction and \<^verbatim>\<open>call_llm\<close> leave the files alone; the placeholder block
  touches the statement file only.\<close>

lemma files_print [simp]:
  "file_content (print line w) = file_content w" "path_exists (print line w) = path_exists w"
  by (simp_all add: print_def)

lemma files_GeminiLLM_init:
  "file_content (snd (GeminiLLM_init sdk w)) = file_content w"
  "path_exists (snd (GeminiLLM_init sdk w)) = path_exists w"
  by (simp_all add: GeminiLLM_init_def Let_def split: sum.splits)

lemma files_GeminiLLM_call_llm:
  "file_content (snd (snd (GeminiLLM_call_llm sdk p (g, w)))) = file_content w"
  "path_exists (snd (snd (GeminiLLM_call_llm sdk p (g, w)))) = path_exists w"
  by (simp_all add: Let_def print_def split: sum.splits option.splits)

lemma files_gemini_main_placeholder:
  assumes "path \<noteq> statement_path"
  shows "file_content (snd (gemini_main_placeholder w)) path = file_content w path"
    and "path_exists (snd (gemini_main_placeholder w)) path = path_exists w path"
  using assms
  by (simp_all add: gemini_main_placeholder_def open_write_def file_write_def print_def Let_def
      split: option.splits)

lemma output_not_statement: "''permutation_gemini_solution.txt'' \<noteq> statement_path"
  by (simp add: statement_path_def)

text \<open>The \<^verbatim>\<open>else\<close> branch of the entry point of \<^verbatim>\<open>gemini_api.py\<close>.\<close>

lemma gemini_main_failure_branch:
  assumes "GeminiLLM_init sdk w = (Inr llm, w1)"
    and "gemini_main_placeholder w1 = (None, w2)"
    and "open_read statement_path w2 = Inr statement"
    and "gemini_generate_solution (GeminiLLM_call_llm sdk) statement
           (llm, print ''Generating solution with Gemini...'' w2) = (Inr (response, meta), s3)"
    and "response = [] \<or> str_contains ''Error:'' response"
  shows "gemini_main sdk w =
           (None, print (''Response from API: '' @ response)
                    (print ''\<newline>Failed to generate a valid solution.'' (snd s3)))"
proof -
  from assms(3,4,5) have "gemini_main_try sdk llm w2 =
      (None, print (''Response from API: '' @ response)
               (print ''\<newline>Failed to generate a valid solution.'' (snd s3)))"
    by (auto simp: gemini_main_try_def Let_def)
  with assms(1,2) show ?thesis by (simp add: gemini_main_def)
qed

lemma gemini_main_error_handling_sample:
  "gemini_main error_handling_sdk sample_world =
     (None, sample_world\<lparr>stdout :=
        [''Generating solution with Gemini...'',
         ''\<newline>Failed to generate a valid solution.'',
         ''Response from API: '' @ ''int main() { std::cerr << \"Error: bad input\"; }''],
        network :=
          [Generate_content
             (gemini_LLMInterface.prompt gemini_LLMInterface_init @ ''Statement: return 1'')
             GeminiLLM_request]\<rparr>)"
  by (simp add: gemini_main_def gemini_main_try_def gemini_main_placeholder_def GeminiLLM_init_def
      GeminiLLM_init_try_def gemini_generate_solution_def gemini_LLMInterface_init_def
      GeminiLLM_call_llm_try_def open_read_def print_def error_handling_sdk_def sample_sdk_def
      sample_world_def error_handling_response_def Let_def)

lemma error_handling_GeminiLLM_init:
  "GeminiLLM_init error_handling_sdk sample_world = (Inr sample_GeminiLLM, sample_world)"
  by (simp add: GeminiLLM_init_def GeminiLLM_init_try_def error_handling_sdk_def sample_sdk_def
      sample_world_def sample_GeminiLLM_def Let_def)

lemma sample_placeholder: "gemini_main_placeholder sample_world = (None, sample_world)"
  by (simp add: gemini_main_placeholder_def sample_world_def)

lemma sample_open_read: "open_read statement_path sample_world = Inr ''Statement: return 1''"
  by (simp add: open_read_def sample_world_def)

section \<open>The claims\<close>

text \<open>
  C1. For every problem statement \<open>S\<close> and every adapter that construction returned,
  \<^verbatim>\<open>generate_solution(S)\<close> hands \<^verbatim>\<open>call_llm\<close> the instruction string fixed at construction
  followed by the whole of \<open>S\<close>, and its outcome (the pair of text and metadata, or the
  exception, and the state left behind) is the one \<^verbatim>\<open>call_llm\<close> produced on that prompt,
  whatever \<^verbatim>\<open>call_llm\<close> is. This holds in both files.
\<close>

theorem generate_solution_prompt_and_result:
  "(ExampleLLM_init sdk w0 = (Inr a, w1) \<longrightarrow>
      chatgpt_generate_solution call_a S (a, w) =
      call_a (chatgpt_LLMInterface.prompt chatgpt_LLMInterface_init @ S) (a, w))
   \<and> (GeminiLLM_init sdk' w0' = (Inr g, w1') \<longrightarrow>
      gemini_generate_solution call_g S (g, w') =
      call_g (gemini_LLMInterface.prompt gemini_LLMInterface_init @ S) (g, w'))"
  by (simp add: chatgpt_generate_solution_eq gemini_generate_solution_eq
      ExampleLLM_init_prompt GeminiLLM_init_prompt)

text \<open>The theorem at the sample SDK and world, for the statement \<open>''Statement: return 1''\<close>.\<close>

theorem generate_solution_prompt_and_result_witness:
  "ExampleLLM_init sample_sdk sample_world = (Inr sample_ExampleLLM, print ''sk-test'' sample_world)
   \<and> chatgpt_generate_solution (ExampleLLM_call_llm sample_sdk) ''Statement: return 1''
         (sample_ExampleLLM, sample_world) =
       ExampleLLM_call_llm sample_sdk
         (chatgpt_LLMInterface.prompt chatgpt_LLMInterface_init @ ''Statement: return 1'')
         (sample_ExampleLLM, sample_world)
   \<and> GeminiLLM_init sample_sdk sample_world = (Inr sample_GeminiLLM, sample_world)
   \<and> gemini_generate_solution (GeminiLLM_call_llm sample_sdk) ''Statement: return 1''
         (sample_GeminiLLM, sample_world) =
       GeminiLLM_call_llm sample_sdk
         (gemini_LLMInterface.prompt gemini_LLMInterface_init @ ''Statement: return 1'')
         (sample_GeminiLLM, sample_world)"
  using generate_solution_prompt_and_result
          [of sample_sdk sample_world sample_ExampleLLM "print ''sk-test'' sample_world"
              "ExampleLLM_call_llm sample_sdk" "''Statement: return 1''" sample_world
              sample_sdk sample_world sample_GeminiLLM sample_world
              "GeminiLLM_call_llm sample_sdk" sample_world]
        sample_ExampleLLM_init sample_GeminiLLM_init
  by simp

text \<open>
  C2. If \<^verbatim>\<open>GOOGLE_API_KEY\<close> is absent when a \<^verbatim>\<open>GeminiLLM\<close> is constructed, construction
  does not raise: it returns an adapter with no model and makes no provider call. On that
  adapter every \<^verbatim>\<open>call_llm\<close>, for every prompt and in every world, returns the text
  \<^verbatim>\<open>Error: Model not initialized.\<close> (which contains the marker \<^verbatim>\<open>Error:\<close>) with the
  metadata \<^verbatim>\<open>None\<close>, and leaves the whole world, the log of provider calls included, as
  it was.
\<close>

theorem GeminiLLM_absent_credential:
  assumes "environ w0 ''GOOGLE_API_KEY'' = None"
  shows "\<exists>g w1. GeminiLLM_init sdk w0 = (Inr g, w1) \<and> model g = None \<and> network w1 = network w0
           \<and> (\<forall>user_prompt w.
                 GeminiLLM_call_llm sdk user_prompt (g, w) =
                   (Inr (''Error: Model not initialized.'', None), (g, w)))
           \<and> str_contains ''Error:'' ''Error: Model not initialized.''"
  using GeminiLLM_init_absent [OF assms, of sdk] by (simp add: print_def)

text \<open>The theorem in the world with no credential.\<close>

theorem GeminiLLM_absent_credential_witness:
  "environ no_key_world ''GOOGLE_API_KEY'' = None
   \<and> fst (GeminiLLM_init sample_sdk no_key_world) = Inr degraded_GeminiLLM
   \<and> GeminiLLM_call_llm sample_sdk ''Statement: return 1'' (degraded_GeminiLLM, no_key_world) =
       (Inr (''Error: Model not initialized.'', None), (degraded_GeminiLLM, no_key_world))"
proof -
  have absent: "environ no_key_world ''GOOGLE_API_KEY'' = None"
    by (simp add: no_key_world_def)
  have init: "fst (GeminiLLM_init sample_sdk no_key_world) = Inr degraded_GeminiLLM"
    by (simp add: GeminiLLM_init_absent [OF absent] degraded_GeminiLLM_def)
  from GeminiLLM_absent_credential [OF absent, of sample_sdk]
  obtain g w1 where g: "GeminiLLM_init sample_sdk no_key_world = (Inr g, w1)"
    and call: "\<forall>user_prompt w. GeminiLLM_call_llm sample_sdk user_prompt (g, w) =
                 (Inr (''Error: Model not initialized.'', None), (g, w))"
    by blast
  from g init have "g = degraded_GeminiLLM" by simp
  with call absent init show ?thesis by simp
qed

text \<open>
  C3, as the claim states it, fails: \<^verbatim>\<open>except Exception\<close> does not catch an exception
  whose class derives from \<^verbatim>\<open>BaseException\<close> only. When the content request is interrupted
  from the keyboard, \<^verbatim>\<open>GeminiLLM.call_llm\<close> raises \<^verbatim>\<open>KeyboardInterrupt\<close> to its caller.
\<close>

theorem GeminiLLM_call_llm_interrupt_propagates:
  "model sample_GeminiLLM = Some (Model_handle ''gemini-2.5-pro'')
   \<and> generate_content interrupted_sdk (Model_handle ''gemini-2.5-pro'') ''Statement: return 1''
         GeminiLLM_request = Inl (PyExc KeyboardInterrupt [])
   \<and> fst (GeminiLLM_call_llm interrupted_sdk ''Statement: return 1'' (sample_GeminiLLM, sample_world))
       = Inl (PyExc KeyboardInterrupt [])"
  by (simp add: sample_GeminiLLM_def interrupted_sdk_def sample_sdk_def GeminiLLM_call_llm_try_def
      Let_def)

text \<open>
  C3, amended. For every prompt, if the provider call of \<^verbatim>\<open>GeminiLLM.call_llm\<close> raises an
  exception whose class derives from \<^verbatim>\<open>Exception\<close>, the exception is caught and
  \<^verbatim>\<open>call_llm\<close> returns, without raising, the text \<^verbatim>\<open>Error: \<close> followed by \<^verbatim>\<open>str(e)\<close>
  with the metadata \<^verbatim>\<open>None\<close>; an exception outside \<^verbatim>\<open>Exception\<close>
  (\<^verbatim>\<open>KeyboardInterrupt\<close>, \<^verbatim>\<open>SystemExit\<close>, \<^verbatim>\<open>GeneratorExit\<close>) is raised to the caller.
\<close>

theorem GeminiLLM_call_llm_catches_Exception:
  assumes "model g = Some m"
    and "generate_content sdk m user_prompt GeminiLLM_request = Inl e"
  shows "(is_Exception e \<longrightarrow>
            fst (GeminiLLM_call_llm sdk user_prompt (g, w)) = Inr (''Error: '' @ exc_str e, None))
         \<and> (\<not> is_Exception e \<longrightarrow>
            fst (GeminiLLM_call_llm sdk user_prompt (g, w)) = Inl e)"
  using assms by (simp add: GeminiLLM_call_llm_try_def Let_def)

text \<open>The theorem at the SDK whose provider calls fail with a connection error.\<close>

theorem GeminiLLM_call_llm_catches_Exception_witness:
  "model sample_GeminiLLM = Some (Model_handle ''gemini-2.5-pro'')
   \<and> generate_content offline_sdk (Model_handle ''gemini-2.5-pro'') ''Statement: return 1''
         GeminiLLM_request = Inl connection_error
   \<and> is_Exception connection_error
   \<and> fst (GeminiLLM_call_llm offline_sdk ''Statement: return 1'' (sample_GeminiLLM, sample_world))
       = Inr (''Error: Connection error.'', None)"
proof -
  have m: "model sample_GeminiLLM = Some (Model_handle ''gemini-2.5-pro'')"
    by (simp add: sample_GeminiLLM_def)
  have raises: "generate_content offline_sdk (Model_handle ''gemini-2.5-pro'')
                  ''Statement: return 1'' GeminiLLM_request = Inl connection_error"
    by (simp add: offline_sdk_def sample_sdk_def)
  have exc: "is_Exception connection_error" "exc_str connection_error = ''Connection error.''"
    by (simp_all add: connection_error_def)
  from GeminiLLM_call_llm_catches_Exception [OF m raises, of sample_world] m raises exc
  show ?thesis by simp
qed

text \<open>
  C4. For every prompt, if the provider call of \<^verbatim>\<open>ExampleLLM.call_llm\<close> raises, that very
  exception is raised to the caller of \<^verbatim>\<open>call_llm\<close>; no value is returned in its place.
\<close>

theorem ExampleLLM_call_llm_propagates:
  assumes "chat_completions_create sdk (client a) (ExampleLLM_request user_prompt) = Inl e"
  shows "fst (ExampleLLM_call_llm sdk user_prompt (a, w)) = Inl e
         \<and> (\<forall>r. fst (ExampleLLM_call_llm sdk user_prompt (a, w)) \<noteq> Inr r)"
  using assms by (simp add: Let_def)

text \<open>The theorem at the SDK whose provider calls fail with a connection error.\<close>

theorem ExampleLLM_call_llm_propagates_witness:
  "chat_completions_create offline_sdk (client sample_ExampleLLM)
      (ExampleLLM_request ''Statement: return 1'') = Inl connection_error
   \<and> fst (ExampleLLM_call_llm offline_sdk ''Statement: return 1'' (sample_ExampleLLM, sample_world))
       = Inl connection_error"
proof -
  have raises: "chat_completions_create offline_sdk (client sample_ExampleLLM)
      (ExampleLLM_request ''Statement: return 1'') = Inl connection_error"
    by (simp add: offline_sdk_def sample_sdk_def)
  from ExampleLLM_call_llm_propagates [OF raises, of sample_world] raises
  show ?thesis by simp
qed

text \<open>
  C5. \<^verbatim>\<open>GeminiLLM.call_llm\<close> on an adapter with a model hands \<^verbatim>\<open>generate_content\<close> the
  prompt with the request options \<^verbatim>\<open>{"timeout": 600}\<close> (600 seconds): its outcome is what the
  primitive answers on exactly those arguments, passed through the handler, and that
  request is the one it issues (a degraded adapter issues none). \<^verbatim>\<open>ExampleLLM.call_llm\<close>
  hands \<^verbatim>\<open>chat.completions.create\<close> the keywords \<^verbatim>\<open>model\<close>, \<^verbatim>\<open>messages\<close> and
  \<^verbatim>\<open>reasoning_effort\<close> and no timeout, and its client was built from the API key alone.
\<close>

theorem call_llm_timeouts:
  "(model g = Some m \<longrightarrow>
      fst (GeminiLLM_call_llm sdk p (g, w)) =
        (case generate_content sdk m p [(''request_options'', PyDict [(''timeout'', PyInt 600)])] of
           Inl e \<Rightarrow> if is_Exception e then Inr (''Error: '' @ exc_str e, None) else Inl e
         | Inr r \<Rightarrow>
             (case response_text r of
                Inl e \<Rightarrow> if is_Exception e then Inr (''Error: '' @ exc_str e, None) else Inl e
              | Inr t \<Rightarrow> Inr (t, Some r)))
      \<and> calls_made w (snd (snd (GeminiLLM_call_llm sdk p (g, w)))) =
          [Generate_content p [(''request_options'', PyDict [(''timeout'', PyInt 600)])]])
   \<and> map request_timeout (calls_made w (snd (snd (GeminiLLM_call_llm sdk p (g, w))))) =
       (case model g of None \<Rightarrow> [] | Some m \<Rightarrow> [Some (PyInt 600)])
   \<and> fst (ExampleLLM_call_llm sdk p' (a, w')) =
       (case chat_completions_create sdk (client a)
               [(''model'', PyStr ''gpt-5''),
                (''messages'', PyList [PyDict [(''role'', PyStr ''user''), (''content'', PyStr p')]]),
                (''reasoning_effort'', PyStr ''high'')] of
          Inl e \<Rightarrow> Inl e
        | Inr c \<Rightarrow>
            (case choices c of
               [] \<Rightarrow> Inl (PyExc IndexError ''list index out of range'')
             | ch # cs \<Rightarrow> Inr (content (message ch), completion_str c)))
   \<and> calls_made w' (snd (snd (ExampleLLM_call_llm sdk p' (a, w')))) =
       [Chat_completions_create
          [(''model'', PyStr ''gpt-5''),
           (''messages'', PyList [PyDict [(''role'', PyStr ''user''), (''content'', PyStr p')]]),
           (''reasoning_effort'', PyStr ''high'')]]
   \<and> map request_timeout (calls_made w' (snd (snd (ExampleLLM_call_llm sdk p' (a, w'))))) = [None]
   \<and> (ExampleLLM_init sdk w0 = (Inr a0, w1) \<longrightarrow>
        (\<exists>key. OpenAI sdk [(''api_key'', key)] = Inr (client a0)))"
proof -
  have gem: "model g = Some m \<Longrightarrow>
      fst (GeminiLLM_call_llm sdk p (g, w)) =
        (case generate_content sdk m p [(''request_options'', PyDict [(''timeout'', PyInt 600)])] of
           Inl e \<Rightarrow> if is_Exception e then Inr (''Error: '' @ exc_str e, None) else Inl e
         | Inr r \<Rightarrow>
             (case response_text r of
                Inl e \<Rightarrow> if is_Exception e then Inr (''Error: '' @ exc_str e, None) else Inl e
              | Inr t \<Rightarrow> Inr (t, Some r)))"
    using GeminiLLM_call_llm_result [of g m sdk p w] by (simp only: GeminiLLM_request_def)
  have gem_calls: "model g = Some m \<Longrightarrow>
      calls_made w (snd (snd (GeminiLLM_call_llm sdk p (g, w)))) =
          [Generate_content p [(''request_options'', PyDict [(''timeout'', PyInt 600)])]]"
    unfolding GeminiLLM_calls_made by (simp add: GeminiLLM_request_def)
  have gem_timeouts:
    "map request_timeout (calls_made w (snd (snd (GeminiLLM_call_llm sdk p (g, w))))) =
       (case model g of None \<Rightarrow> [] | Some m \<Rightarrow> [Some (PyInt 600)])"
    unfolding GeminiLLM_calls_made by (simp add: GeminiLLM_request_def split: option.splits)
  have ex: "fst (ExampleLLM_call_llm sdk p' (a, w')) =
       (case chat_completions_create sdk (client a)
               [(''model'', PyStr ''gpt-5''),
                (''messages'', PyList [PyDict [(''role'', PyStr ''user''), (''content'', PyStr p')]]),
                (''reasoning_effort'', PyStr ''high'')] of
          Inl e \<Rightarrow> Inl e
        | Inr c \<Rightarrow>
            (case choices c of
               [] \<Rightarrow> Inl (PyExc IndexError ''list index out of range'')
             | ch # cs \<Rightarrow> Inr (content (message ch), completion_str c)))"
    using ExampleLLM_call_llm_result [of sdk p' a w'] by (simp only: ExampleLLM_request_def)
  have ex_calls: "calls_made w' (snd (snd (ExampleLLM_call_llm sdk p' (a, w')))) =
       [Chat_completions_create
          [(''model'', PyStr ''gpt-5''),
           (''messages'', PyList [PyDict [(''role'', PyStr ''user''), (''content'', PyStr p')]]),
           (''reasoning_effort'', PyStr ''high'')]]"
    unfolding ExampleLLM_calls_made by (simp add: ExampleLLM_request_def)
  have ex_timeouts:
    "map request_timeout (calls_made w' (snd (snd (ExampleLLM_call_llm sdk p' (a, w'))))) = [None]"
    unfolding ExampleLLM_calls_made by (simp add: ExampleLLM_request_def)
  from gem gem_calls gem_timeouts ex ex_calls ex_timeouts ExampleLLM_init_client [of sdk w0 a0 w1]
  show ?thesis by (intro conjI impI) assumption+
qed

text \<open>The theorem at the SDK that answers only a content request with the timeout of 600 and
  only a chat request without one: both adapters get their answer.\<close>

theorem call_llm_timeouts_witness:
  "model sample_GeminiLLM = Some (Model_handle ''gemini-2.5-pro'')
   \<and> fst (GeminiLLM_call_llm timeout_checking_sdk ''Statement: return 1''
            (sample_GeminiLLM, sample_world))
       = Inr (''int main() { return 1; }'', Some sample_response)
   \<and> map request_timeout
        (calls_made sample_world
           (snd (snd (GeminiLLM_call_llm timeout_checking_sdk ''Statement: return 1''
                        (sample_GeminiLLM, sample_world))))) = [Some (PyInt 600)]
   \<and> fst (ExampleLLM_call_llm timeout_checking_sdk ''Statement: return 1''
            (sample_ExampleLLM, sample_world))
       = Inr (Some ''int main() { return 1; }'', ''ChatCompletion(id=1)'')
   \<and> map request_timeout
        (calls_made sample_world
           (snd (snd (ExampleLLM_call_llm timeout_checking_sdk ''Statement: return 1''
                        (sample_ExampleLLM, sample_world))))) = [None]
   \<and> ExampleLLM_init timeout_checking_sdk sample_world =
       (Inr sample_ExampleLLM, print ''sk-test'' sample_world)
   \<and> OpenAI timeout_checking_sdk [(''api_key'', PyStr ''sk-test'')] = Inr (client sample_ExampleLLM)"
proof -
  have m: "model sample_GeminiLLM = Some (Model_handle ''gemini-2.5-pro'')"
    by (simp add: sample_GeminiLLM_def)
  note inst = call_llm_timeouts
      [of sample_GeminiLLM "Model_handle ''gemini-2.5-pro''" timeout_checking_sdk
          "''Statement: return 1''" sample_world "''Statement: return 1''" sample_ExampleLLM
          sample_world sample_world sample_ExampleLLM "print ''sk-test'' sample_world"]
  from inst m have gem:
    "fst (GeminiLLM_call_llm timeout_checking_sdk ''Statement: return 1''
            (sample_GeminiLLM, sample_world))
       = Inr (''int main() { return 1; }'', Some sample_response)"
    by (simp add: timeout_checking_sdk_def sample_response_def)
  from inst m have gem_t:
    "map request_timeout
        (calls_made sample_world
           (snd (snd (GeminiLLM_call_llm timeout_checking_sdk ''Statement: return 1''
                        (sample_GeminiLLM, sample_world))))) = [Some (PyInt 600)]"
    by simp
  from inst have ex:
    "fst (ExampleLLM_call_llm timeout_checking_sdk ''Statement: return 1''
            (sample_ExampleLLM, sample_world))
       = Inr (Some ''int main() { return 1; }'', ''ChatCompletion(id=1)'')"
    by (simp add: timeout_checking_sdk_def sample_completion_def)
  from inst have ex_t:
    "map request_timeout
        (calls_made sample_world
           (snd (snd (ExampleLLM_call_llm timeout_checking_sdk ''Statement: return 1''
                        (sample_ExampleLLM, sample_world))))) = [None]"
    by blast
  have client: "OpenAI timeout_checking_sdk [(''api_key'', PyStr ''sk-test'')]
                  = Inr (client sample_ExampleLLM)"
    by (simp add: timeout_checking_sdk_def sample_sdk_def sample_ExampleLLM_def)
  from m gem gem_t ex ex_t timeout_checking_ExampleLLM_init client
  show ?thesis by (intro conjI)
qed

text \<open>
  C6, as the claim states it, fails: constructed without a credential, a \<^verbatim>\<open>GeminiLLM\<close>
  has no model, and its \<^verbatim>\<open>call_llm\<close> returns before the provider call. The invocation
  makes no provider call, not one.
\<close>

theorem degraded_call_llm_makes_no_call:
  "GeminiLLM_init sample_sdk no_key_world =
     (Inr degraded_GeminiLLM,
      print ''Error during Gemini initialization: GOOGLE_API_KEY not found in environment variables.''
        no_key_world)
   \<and> calls_made no_key_world
        (snd (snd (GeminiLLM_call_llm sample_sdk ''Statement: return 1''
                     (degraded_GeminiLLM, no_key_world)))) = []
   \<and> length (calls_made no_key_world
        (snd (snd (GeminiLLM_call_llm sample_sdk ''Statement: return 1''
                     (degraded_GeminiLLM, no_key_world))))) \<noteq> 1"
  unfolding GeminiLLM_calls_made
  by (simp add: GeminiLLM_init_absent no_key_world_def degraded_GeminiLLM_def)

text \<open>
  C6, amended. Every invocation of \<^verbatim>\<open>ExampleLLM.call_llm\<close> invokes the provider call
  primitive exactly once; every invocation of \<^verbatim>\<open>GeminiLLM.call_llm\<close> invokes it exactly
  once when the adapter has a model and not at all when it has none. The outcome of
  \<^verbatim>\<open>call_llm\<close> is the outcome of that one invocation: whether it fails or not, no second
  request follows. A run of either entry point performs exactly one provider call, the
  request for the instruction followed by the statement, when construction returns an
  adapter and the statement is read (for \<^verbatim>\<open>gemini_api.py\<close>: when also the placeholder block
  does not raise and the adapter has a model), and none otherwise.
\<close>

theorem provider_calls_per_invocation_and_run:
  "calls_made w (snd (snd (ExampleLLM_call_llm sdk p (a, w)))) =
     [Chat_completions_create (ExampleLLM_request p)]
   \<and> fst (ExampleLLM_call_llm sdk p (a, w)) =
       (case chat_completions_create sdk (client a) (ExampleLLM_request p) of
          Inl e \<Rightarrow> Inl e
        | Inr c \<Rightarrow>
            (case choices c of
               [] \<Rightarrow> Inl (PyExc IndexError ''list index out of range'')
             | ch # cs \<Rightarrow> Inr (content (message ch), completion_str c)))
   \<and> calls_made w' (snd (snd (GeminiLLM_call_llm sdk p' (g, w')))) =
       (case model g of None \<Rightarrow> [] | Some m \<Rightarrow> [Generate_content p' GeminiLLM_request])
   \<and> (\<forall>m. model g = Some m \<longrightarrow>
         fst (GeminiLLM_call_llm sdk p' (g, w')) =
           (case generate_content sdk m p' GeminiLLM_request of
              Inl e \<Rightarrow> if is_Exception e then Inr (''Error: '' @ exc_str e, None) else Inl e
            | Inr r \<Rightarrow>
                (case response_text r of
                   Inl e \<Rightarrow> if is_Exception e then Inr (''Error: '' @ exc_str e, None) else Inl e
                 | Inr t \<Rightarrow> Inr (t, Some r))))
   \<and> length (calls_made w (snd (snd (ExampleLLM_call_llm sdk p (a, w))))) = 1
   \<and> length (calls_made w' (snd (snd (GeminiLLM_call_llm sdk p' (g, w'))))) =
       (if model g = None then 0 else 1)
   \<and> calls_made w0 (snd (chatgpt_main sdk w0)) =
       (case ExampleLLM_init sdk w0 of
          (Inl e, w1) \<Rightarrow> []
        | (Inr llm, w1) \<Rightarrow>
            (case open_read statement_path w1 of
               Inl e \<Rightarrow> []
             | Inr statement \<Rightarrow>
                 [Chat_completions_create
                    (ExampleLLM_request (chatgpt_LLMInterface.prompt llm @ statement))]))
   \<and> calls_made w0' (snd (gemini_main sdk w0')) =
       (case GeminiLLM_init sdk w0' of
          (Inl e, w1) \<Rightarrow> []
        | (Inr llm, w1) \<Rightarrow>
            (case gemini_main_placeholder w1 of
               (Some e, w2) \<Rightarrow> []
             | (None, w2) \<Rightarrow>
                 (case open_read statement_path w2 of
                    Inl e \<Rightarrow> []
                  | Inr statement \<Rightarrow>
                      (case model llm of
                         None \<Rightarrow> []
                       | Some m \<Rightarrow>
                           [Generate_content (gemini_LLMInterface.prompt llm @ statement)
                              GeminiLLM_request]))))"
proof -
  have len_a: "length (calls_made w (snd (snd (ExampleLLM_call_llm sdk p (a, w))))) = 1"
    unfolding ExampleLLM_calls_made by simp
  have len_g: "length (calls_made w' (snd (snd (GeminiLLM_call_llm sdk p' (g, w'))))) =
       (if model g = None then 0 else 1)"
    unfolding GeminiLLM_calls_made by (simp split: option.splits)
  have res_g: "\<forall>m. model g = Some m \<longrightarrow>
         fst (GeminiLLM_call_llm sdk p' (g, w')) =
           (case generate_content sdk m p' GeminiLLM_request of
              Inl e \<Rightarrow> if is_Exception e then Inr (''Error: '' @ exc_str e, None) else Inl e
            | Inr r \<Rightarrow>
                (case response_text r of
                   Inl e \<Rightarrow> if is_Exception e then Inr (''Error: '' @ exc_str e, None) else Inl e
                 | Inr t \<Rightarrow> Inr (t, Some r)))"
    using GeminiLLM_call_llm_result [of g _ sdk p' w'] by blast
  from ExampleLLM_calls_made [of w sdk p a] ExampleLLM_call_llm_result [of sdk p a w]
       GeminiLLM_calls_made [of w' sdk p' g] res_g len_a len_g
       chatgpt_main_calls [of w0 sdk] gemini_main_calls [of w0' sdk]
  show ?thesis by (intro conjI)
qed

text \<open>The theorem at the SDK whose provider calls fail: one call each and no retry, one call
  per run, and none in the run with no credential.\<close>

theorem provider_calls_per_invocation_and_run_witness:
  "fst (ExampleLLM_call_llm offline_sdk ''Statement: return 1'' (sample_ExampleLLM, sample_world))
     = Inl connection_error
   \<and> calls_made sample_world
        (snd (snd (ExampleLLM_call_llm offline_sdk ''Statement: return 1''
                     (sample_ExampleLLM, sample_world))))
       = [Chat_completions_create (ExampleLLM_request ''Statement: return 1'')]
   \<and> fst (GeminiLLM_call_llm offline_sdk ''Statement: return 1'' (sample_GeminiLLM, sample_world))
     = Inr (''Error: Connection error.'', None)
   \<and> calls_made sample_world
        (snd (snd (GeminiLLM_call_llm offline_sdk ''Statement: return 1''
                     (sample_GeminiLLM, sample_world))))
       = [Generate_content ''Statement: return 1'' GeminiLLM_request]
   \<and> calls_made sample_world (snd (chatgpt_main offline_sdk sample_world))
       = [Chat_completions_create
            (ExampleLLM_request
               (chatgpt_LLMInterface.prompt chatgpt_LLMInterface_init @ ''Statement: return 1''))]
   \<and> calls_made sample_world (snd (gemini_main offline_sdk sample_world))
       = [Generate_content
            (gemini_LLMInterface.prompt gemini_LLMInterface_init @ ''Statement: return 1'')
            GeminiLLM_request]
   \<and> calls_made no_key_world (snd (gemini_main offline_sdk no_key_world)) = []"
proof -
  note inst = provider_calls_per_invocation_and_run
      [of sample_world offline_sdk "''Statement: return 1''" sample_ExampleLLM
          sample_world "''Statement: return 1''" sample_GeminiLLM sample_world sample_world]
  note inst_no_key = provider_calls_per_invocation_and_run
      [of sample_world offline_sdk "''Statement: return 1''" sample_ExampleLLM
          sample_world "''Statement: return 1''" sample_GeminiLLM sample_world no_key_world]
  have m: "model sample_GeminiLLM = Some (Model_handle ''gemini-2.5-pro'')"
    by (simp add: sample_GeminiLLM_def)
  have res_a: "fst (ExampleLLM_call_llm offline_sdk ''Statement: return 1''
                 (sample_ExampleLLM, sample_world)) = Inl connection_error"
    unfolding inst [THEN conjunct2, THEN conjunct1]
    by (simp add: offline_sdk_def)
  have calls_a: "calls_made sample_world
        (snd (snd (ExampleLLM_call_llm offline_sdk ''Statement: return 1''
                     (sample_ExampleLLM, sample_world))))
       = [Chat_completions_create (ExampleLLM_request ''Statement: return 1'')]"
    by (rule inst [THEN conjunct1])
  have res_g: "fst (GeminiLLM_call_llm offline_sdk ''Statement: return 1''
                 (sample_GeminiLLM, sample_world)) = Inr (''Error: Connection error.'', None)"
    using inst [THEN conjunct2, THEN conjunct2, THEN conjunct2, THEN conjunct1] m
    by (simp add: offline_sdk_def connection_error_def)
  have calls_g: "calls_made sample_world
        (snd (snd (GeminiLLM_call_llm offline_sdk ''Statement: return 1''
                     (sample_GeminiLLM, sample_world))))
       = [Generate_content ''Statement: return 1'' GeminiLLM_request]"
    unfolding inst [THEN conjunct2, THEN conjunct2, THEN conjunct1] by (simp add: m)
  have main_a: "calls_made sample_world (snd (chatgpt_main offline_sdk sample_world))
       = [Chat_completions_create
            (ExampleLLM_request
               (chatgpt_LLMInterface.prompt chatgpt_LLMInterface_init @ ''Statement: return 1''))]"
    unfolding inst [THEN conjunct2, THEN conjunct2, THEN conjunct2, THEN conjunct2,
                    THEN conjunct2, THEN conjunct2, THEN conjunct1]
              offline_ExampleLLM_init
    by (simp add: print_open_read sample_open_read sample_ExampleLLM_def)
  have main_g: "calls_made sample_world (snd (gemini_main offline_sdk sample_world))
       = [Generate_content
            (gemini_LLMInterface.prompt gemini_LLMInterface_init @ ''Statement: return 1'')
            GeminiLLM_request]"
    unfolding inst [THEN conjunct2, THEN conjunct2, THEN conjunct2, THEN conjunct2,
                    THEN conjunct2, THEN conjunct2, THEN conjunct2]
              offline_GeminiLLM_init
    by (simp add: sample_placeholder sample_open_read sample_GeminiLLM_def)
  have absent: "environ no_key_world ''GOOGLE_API_KEY'' = None"
    by (simp add: no_key_world_def)
  have main_none: "calls_made no_key_world (snd (gemini_main offline_sdk no_key_world)) = []"
    unfolding inst_no_key [THEN conjunct2, THEN conjunct2, THEN conjunct2, THEN conjunct2,
                    THEN conjunct2, THEN conjunct2, THEN conjunct2]
              GeminiLLM_init_absent [OF absent]
    by (simp split: prod.splits option.splits sum.splits)
  from res_a calls_a res_g calls_g main_a main_g main_none show ?thesis by (intro conjI)
qed

text \<open>
  C7. Both files fix the same instruction string at construction, character for character,
  and prepend it in the same way: for every problem statement \<open>S\<close> and adapters that
  construction returned, \<^verbatim>\<open>generate_solution\<close> of either file hands its \<^verbatim>\<open>call_llm\<close> the
  prompt the other file builds, and when the \<^verbatim>\<open>GeminiLLM\<close> has a model the two requests
  sent to the providers carry the same text.
\<close>

theorem adapters_build_identical_prompts:
  assumes "ExampleLLM_init sdk w0 = (Inr a, w1)" and "GeminiLLM_init sdk' w0' = (Inr g, w1')"
  shows "chatgpt_LLMInterface.prompt a = gemini_LLMInterface.prompt g
         \<and> chatgpt_generate_solution call_a S (a, w) =
             call_a (gemini_LLMInterface.prompt g @ S) (a, w)
         \<and> gemini_generate_solution call_g S (g, w') =
             call_g (chatgpt_LLMInterface.prompt a @ S) (g, w')
         \<and> (model g \<noteq> None \<longrightarrow>
              map request_prompt
                (calls_made w (snd (snd (chatgpt_generate_solution (ExampleLLM_call_llm sdk) S (a, w)))))
              = map request_prompt
                (calls_made w' (snd (snd (gemini_generate_solution (GeminiLLM_call_llm sdk') S (g, w'))))))"
proof -
  have same: "chatgpt_LLMInterface.prompt a = gemini_LLMInterface.prompt g"
    using ExampleLLM_init_prompt [OF assms(1)] GeminiLLM_init_prompt [OF assms(2)]
    by (simp add: chatgpt_LLMInterface_init_def gemini_LLMInterface_init_def)
  have "map request_prompt
          (calls_made w (snd (snd (ExampleLLM_call_llm sdk (chatgpt_LLMInterface.prompt a @ S) (a, w)))))
        = [Some (PyStr (chatgpt_LLMInterface.prompt a @ S))]"
    unfolding ExampleLLM_calls_made by (simp only: list.map ExampleLLM_request_prompt)
  moreover have "model g \<noteq> None \<Longrightarrow>
        map request_prompt
          (calls_made w' (snd (snd (GeminiLLM_call_llm sdk' (gemini_LLMInterface.prompt g @ S) (g, w')))))
        = [Some (PyStr (gemini_LLMInterface.prompt g @ S))]"
    unfolding GeminiLLM_calls_made by (auto split: option.splits)
  ultimately show ?thesis
    using same by (simp add: chatgpt_generate_solution_eq gemini_generate_solution_eq)
qed

text \<open>The theorem at the sample adapters.\<close>

theorem adapters_build_identical_prompts_witness:
  "ExampleLLM_init sample_sdk sample_world = (Inr sample_ExampleLLM, print ''sk-test'' sample_world)
   \<and> GeminiLLM_init sample_sdk sample_world = (Inr sample_GeminiLLM, sample_world)
   \<and> model sample_GeminiLLM \<noteq> None
   \<and> chatgpt_LLMInterface.prompt sample_ExampleLLM = gemini_LLMInterface.prompt sample_GeminiLLM
   \<and> map request_prompt
        (calls_made sample_world
           (snd (snd (chatgpt_generate_solution (ExampleLLM_call_llm sample_sdk)
                        ''Statement: return 1'' (sample_ExampleLLM, sample_world)))))
      = map request_prompt
        (calls_made sample_world
           (snd (snd (gemini_generate_solution (GeminiLLM_call_llm sample_sdk)
                        ''Statement: return 1'' (sample_GeminiLLM, sample_world)))))"
proof -
  have m: "model sample_GeminiLLM \<noteq> None" by (simp add: sample_GeminiLLM_def)
  from adapters_build_identical_prompts [OF sample_ExampleLLM_init sample_GeminiLLM_init,
         of "ExampleLLM_call_llm sample_sdk" "''Statement: return 1''" sample_world
            "GeminiLLM_call_llm sample_sdk" sample_world]
       m sample_ExampleLLM_init sample_GeminiLLM_init
  show ?thesis by blast
qed

text \<open>
  C8. For every adapter and every sequence of \<^verbatim>\<open>generate_solution\<close> and \<^verbatim>\<open>call_llm\<close>
  invocations, after each invocation (after the first \<open>n\<close> of them, for every \<open>n\<close>) the
  adapter is the one the sequence started on: its \<^verbatim>\<open>prompt\<close> is the instruction string
  fixed at construction, and its \<^verbatim>\<open>client\<close> or \<^verbatim>\<open>model\<close> is unchanged.
\<close>

theorem adapter_fields_unchanged:
  "fst (ExampleLLM_run sdk (take n invs) (a, w)) = a
   \<and> fst (GeminiLLM_run sdk' (take n' invs') (g, w')) = g
   \<and> (ExampleLLM_init sdk w0 = (Inr a, w1) \<longrightarrow>
        chatgpt_LLMInterface.prompt (fst (ExampleLLM_run sdk (take n invs) (a, w))) =
          chatgpt_LLMInterface.prompt chatgpt_LLMInterface_init
        \<and> client (fst (ExampleLLM_run sdk (take n invs) (a, w))) = client a)
   \<and> (GeminiLLM_init sdk' w0' = (Inr g, w1') \<longrightarrow>
        gemini_LLMInterface.prompt (fst (GeminiLLM_run sdk' (take n' invs') (g, w'))) =
          gemini_LLMInterface.prompt gemini_LLMInterface_init
        \<and> model (fst (GeminiLLM_run sdk' (take n' invs') (g, w'))) = model g)"
  by (simp add: ExampleLLM_run_self GeminiLLM_run_self ExampleLLM_init_prompt GeminiLLM_init_prompt)

text \<open>The theorem after the first two of three invocations, the provider failing each time.\<close>

theorem adapter_fields_unchanged_witness:
  "ExampleLLM_init sample_sdk sample_world = (Inr sample_ExampleLLM, print ''sk-test'' sample_world)
   \<and> GeminiLLM_init sample_sdk sample_world = (Inr sample_GeminiLLM, sample_world)
   \<and> fst (ExampleLLM_run offline_sdk
             (take 2 [Generate_solution ''Statement: return 1'', Call_llm ''again'', Call_llm ''more''])
             (sample_ExampleLLM, sample_world)) = sample_ExampleLLM
   \<and> fst (GeminiLLM_run offline_sdk
             (take 2 [Call_llm ''again'', Generate_solution ''Statement: return 1'', Call_llm ''more''])
             (sample_GeminiLLM, sample_world)) = sample_GeminiLLM"
  using adapter_fields_unchanged [of offline_sdk 2
          "[Generate_solution ''Statement: return 1'', Call_llm ''again'', Call_llm ''more'']"
          sample_ExampleLLM sample_world offline_sdk 2
          "[Call_llm ''again'', Generate_solution ''Statement: return 1'', Call_llm ''more'']"
          sample_GeminiLLM sample_world]
        sample_ExampleLLM_init sample_GeminiLLM_init
  by blast

text \<open>
  C9. Whenever \<^verbatim>\<open>GeminiLLM.call_llm\<close> returns, its metadata is \<^verbatim>\<open>None\<close> exactly when the
  call failed (the adapter has no model, or the body of the \<^verbatim>\<open>try\<close> block raised); in
  that case the text begins with \<^verbatim>\<open>Error:\<close>. Otherwise the metadata is the response the
  provider returned, and the text is its \<^verbatim>\<open>text\<close>.
\<close>

theorem GeminiLLM_call_llm_metadata:
  assumes "fst (GeminiLLM_call_llm sdk p (g, w)) = Inr (solution_text, meta)"
  shows "(meta = None \<longleftrightarrow>
            (model g = None
             \<or> (\<exists>m e. model g = Some m \<and> GeminiLLM_call_llm_try sdk m p GeminiLLM_request = Inl e)))
         \<and> (meta = None \<longrightarrow> prefix ''Error:'' solution_text)
         \<and> (\<forall>r. meta = Some r \<longrightarrow>
               (\<exists>m. model g = Some m \<and> generate_content sdk m p GeminiLLM_request = Inr r
                    \<and> response_text r = Inr solution_text))"
proof (cases "model g")
  case None
  with assms show ?thesis by auto
next
  case (Some m)
  show ?thesis
  proof (cases "GeminiLLM_call_llm_try sdk m p GeminiLLM_request")
    case (Inl e)
    with Some assms show ?thesis
      by (auto simp: Let_def split: if_splits)
  next
    case (Inr r)
    with Some assms have r: "r = (solution_text, meta)" by (simp add: Let_def)
    with Inr have "\<exists>resp. generate_content sdk m p GeminiLLM_request = Inr resp
        \<and> response_text resp = Inr solution_text \<and> meta = Some resp"
      by (auto simp: GeminiLLM_call_llm_try_def split: sum.splits)
    with Some Inr show ?thesis by auto
  qed
qed

text \<open>The theorem on a call that succeeds and on one that fails.\<close>

theorem GeminiLLM_call_llm_metadata_witness:
  "fst (GeminiLLM_call_llm sample_sdk ''Statement: return 1'' (sample_GeminiLLM, sample_world))
     = Inr (''int main() { return 1; }'', Some sample_response)
   \<and> generate_content sample_sdk (Model_handle ''gemini-2.5-pro'') ''Statement: return 1''
       GeminiLLM_request = Inr sample_response
   \<and> fst (GeminiLLM_call_llm offline_sdk ''Statement: return 1'' (sample_GeminiLLM, sample_world))
     = Inr (''Error: Connection error.'', None)
   \<and> prefix ''Error:'' ''Error: Connection error.''"
proof -
  have ok: "fst (GeminiLLM_call_llm sample_sdk ''Statement: return 1'' (sample_GeminiLLM, sample_world))
     = Inr (''int main() { return 1; }'', Some sample_response)"
    by (simp add: sample_GeminiLLM_def sample_sdk_def sample_response_def
        GeminiLLM_call_llm_try_def Let_def)
  have failed: "fst (GeminiLLM_call_llm offline_sdk ''Statement: return 1'' (sample_GeminiLLM, sample_world))
     = Inr (''Error: Connection error.'', None)"
    by (simp add: sample_GeminiLLM_def offline_sdk_def sample_sdk_def connection_error_def
        GeminiLLM_call_llm_try_def Let_def)
  have m: "model sample_GeminiLLM = Some (Model_handle ''gemini-2.5-pro'')"
    by (simp add: sample_GeminiLLM_def)
  from GeminiLLM_call_llm_metadata [OF ok] m
  have "generate_content sample_sdk (Model_handle ''gemini-2.5-pro'') ''Statement: return 1''
       GeminiLLM_request = Inr sample_response"
    by auto
  moreover from GeminiLLM_call_llm_metadata [OF failed]
  have "prefix ''Error:'' ''Error: Connection error.''" by blast
  ultimately show ?thesis using ok failed by blast
qed

text \<open>
  C10. When \<^verbatim>\<open>generate_solution\<close> returns a text that is empty or contains \<^verbatim>\<open>Error:\<close>
  anywhere, the entry point of \<^verbatim>\<open>gemini_api.py\<close> prints that it failed to generate a
  valid solution and does not touch the output file. So there is a successful provider
  response, whose genuine solution text contains \<^verbatim>\<open>Error:\<close>, for which no output file
  is written and the run reports failure.
\<close>

theorem gemini_main_error_marker_is_failure:
  assumes "GeminiLLM_init sdk w = (Inr llm, w1)"
    and "gemini_main_placeholder w1 = (None, w2)"
    and "open_read statement_path w2 = Inr statement"
    and "gemini_generate_solution (GeminiLLM_call_llm sdk) statement
           (llm, print ''Generating solution with Gemini...'' w2) = (Inr (response, meta), s3)"
    and "response = [] \<or> str_contains ''Error:'' response"
  shows "gemini_main sdk w =
           (None, print (''Response from API: '' @ response)
                    (print ''\<newline>Failed to generate a valid solution.'' (snd s3)))
         \<and> file_content (snd (gemini_main sdk w)) ''permutation_gemini_solution.txt'' =
             file_content w ''permutation_gemini_solution.txt''
         \<and> path_exists (snd (gemini_main sdk w)) ''permutation_gemini_solution.txt'' =
             path_exists w ''permutation_gemini_solution.txt''
         \<and> (\<exists>sdk0 w0 r solution.
               generate_content sdk0 (Model_handle ''gemini-2.5-pro'')
                 (gemini_LLMInterface.prompt gemini_LLMInterface_init @ file_content w0 statement_path)
                 GeminiLLM_request = Inr r
               \<and> response_text r = Inr solution
               \<and> str_contains ''Error:'' solution
               \<and> fst (gemini_main sdk0 w0) = None
               \<and> \<not> path_exists (snd (gemini_main sdk0 w0)) ''permutation_gemini_solution.txt''
               \<and> stdout (snd (gemini_main sdk0 w0)) =
                   [''Generating solution with Gemini...'',
                    ''\<newline>Failed to generate a valid solution.'',
                    ''Response from API: '' @ solution])"
proof -
  note main = gemini_main_failure_branch [OF assms]
  have w1: "file_content w1 = file_content w" "path_exists w1 = path_exists w"
    using files_GeminiLLM_init [of sdk w] assms(1) by simp_all
  have w2: "file_content w2 ''permutation_gemini_solution.txt'' =
              file_content w1 ''permutation_gemini_solution.txt''"
           "path_exists w2 ''permutation_gemini_solution.txt'' =
              path_exists w1 ''permutation_gemini_solution.txt''"
    using files_gemini_main_placeholder [OF output_not_statement, of w1] assms(2) by simp_all
  have s3: "file_content (snd s3) = file_content w2" "path_exists (snd s3) = path_exists w2"
    using files_GeminiLLM_call_llm
            [of sdk "gemini_LLMInterface.prompt llm @ statement" llm
                "print ''Generating solution with Gemini...'' w2"]
          assms(4)
    unfolding gemini_generate_solution_eq by simp_all
  have ex: "\<exists>sdk0 w0 r solution.
               generate_content sdk0 (Model_handle ''gemini-2.5-pro'')
                 (gemini_LLMInterface.prompt gemini_LLMInterface_init @ file_content w0 statement_path)
                 GeminiLLM_request = Inr r
               \<and> response_text r = Inr solution
               \<and> str_contains ''Error:'' solution
               \<and> fst (gemini_main sdk0 w0) = None
               \<and> \<not> path_exists (snd (gemini_main sdk0 w0)) ''permutation_gemini_solution.txt''
               \<and> stdout (snd (gemini_main sdk0 w0)) =
                   [''Generating solution with Gemini...'',
                    ''\<newline>Failed to generate a valid solution.'',
                    ''Response from API: '' @ solution]"
  proof (intro exI conjI)
    show "generate_content error_handling_sdk (Model_handle ''gemini-2.5-pro'')
            (gemini_LLMInterface.prompt gemini_LLMInterface_init
             @ file_content sample_world statement_path)
            GeminiLLM_request = Inr error_handling_response"
      by (simp add: error_handling_sdk_def)
    show "response_text error_handling_response
            = Inr ''int main() { std::cerr << \"Error: bad input\"; }''"
      by (simp add: error_handling_response_def)
    show "str_contains ''Error:'' ''int main() { std::cerr << \"Error: bad input\"; }''"
      by simp
    show "fst (gemini_main error_handling_sdk sample_world) = None"
      by (simp add: gemini_main_error_handling_sample)
    show "\<not> path_exists (snd (gemini_main error_handling_sdk sample_world))
              ''permutation_gemini_solution.txt''"
      unfolding gemini_main_error_handling_sample
      by (simp add: sample_world_def statement_path_def)
    show "stdout (snd (gemini_main error_handling_sdk sample_world)) =
            [''Generating solution with Gemini...'',
             ''\<newline>Failed to generate a valid solution.'',
             ''Response from API: '' @ ''int main() { std::cerr << \"Error: bad input\"; }'']"
      by (simp add: gemini_main_error_handling_sample)
  qed
  from main w1 w2 s3 ex show ?thesis by simp
qed

text \<open>The theorem at the SDK whose solution text mentions an error message.\<close>

theorem gemini_main_error_marker_is_failure_witness:
  "GeminiLLM_init error_handling_sdk sample_world = (Inr sample_GeminiLLM, sample_world)
   \<and> gemini_main_placeholder sample_world = (None, sample_world)
   \<and> open_read statement_path sample_world = Inr ''Statement: return 1''
   \<and> fst (gemini_generate_solution (GeminiLLM_call_llm error_handling_sdk) ''Statement: return 1''
            (sample_GeminiLLM, print ''Generating solution with Gemini...'' sample_world))
       = Inr (''int main() { std::cerr << \"Error: bad input\"; }'', Some error_handling_response)
   \<and> str_contains ''Error:'' ''int main() { std::cerr << \"Error: bad input\"; }''
   \<and> fst (gemini_main error_handling_sdk sample_world) = None
   \<and> file_content (snd (gemini_main error_handling_sdk sample_world))
         ''permutation_gemini_solution.txt'' = []
   \<and> path_exists (snd (gemini_main error_handling_sdk sample_world))
         ''permutation_gemini_solution.txt'' = False"
proof -
  obtain s3 where gen:
    "gemini_generate_solution (GeminiLLM_call_llm error_handling_sdk) ''Statement: return 1''
       (sample_GeminiLLM, print ''Generating solution with Gemini...'' sample_world)
     = (Inr (''int main() { std::cerr << \"Error: bad input\"; }'', Some error_handling_response), s3)"
    by (simp add: gemini_generate_solution_def sample_GeminiLLM_def GeminiLLM_call_llm_try_def
        error_handling_sdk_def sample_sdk_def error_handling_response_def Let_def)
  have marker: "str_contains ''Error:'' ''int main() { std::cerr << \"Error: bad input\"; }''"
    by simp
  then have cond: "''int main() { std::cerr << \"Error: bad input\"; }'' = []
      \<or> str_contains ''Error:'' ''int main() { std::cerr << \"Error: bad input\"; }''"
    by (rule disjI2)
  have untouched: "file_content sample_world ''permutation_gemini_solution.txt'' = []"
    "path_exists sample_world ''permutation_gemini_solution.txt'' = False"
    by (simp_all add: sample_world_def statement_path_def)
  note inst = gemini_main_error_marker_is_failure
         [OF error_handling_GeminiLLM_init sample_placeholder sample_open_read gen cond]
  from inst have run: "fst (gemini_main error_handling_sdk sample_world) = None"
    by (simp only: fst_conv)
  have files: "file_content (snd (gemini_main error_handling_sdk sample_world))
                 ''permutation_gemini_solution.txt'' = []"
              "path_exists (snd (gemini_main error_handling_sdk sample_world))
                 ''permutation_gemini_solution.txt'' = False"
    using inst [THEN conjunct2, THEN conjunct1]
          inst [THEN conjunct2, THEN conjunct2, THEN conjunct1] untouched
    by (simp_all only:)
  from gen have "fst (gemini_generate_solution (GeminiLLM_call_llm error_handling_sdk)
            ''Statement: return 1''
            (sample_GeminiLLM, print ''Generating solution with Gemini...'' sample_world))
       = Inr (''int main() { std::cerr << \"Error: bad input\"; }'', Some error_handling_response)"
    by (simp only: fst_conv)
  with error_handling_GeminiLLM_init sample_placeholder sample_open_read marker run files
  show ?thesis by (intro conjI)
qed

end
